theory Spec2Isabelle
  imports Complex_Main
begin

section \<open>Values, labels and exceptions\<close>

text \<open>
  A pandas or numpy float is a finite number, one of the two infinities or the
  not-a-number value. The operations below are the exact ones on these values: the result
  of an operation on finite numbers is the real number, not yet rounded to a double. The
  floating-point model of the statistics rounds each result with a function that is a
  parameter; the sign of zero is not part of this development.
\<close>

datatype fval = Fin real | PInf | NInf | NaN

text \<open>\<^verbatim>\<open>np.isfinite\<close> and \<^verbatim>\<open>pd.isnull\<close> on one value.\<close>

fun isfinite :: "fval \<Rightarrow> bool" where
  "isfinite (Fin r) = True"
| "isfinite v = False"

fun isnull :: "fval \<Rightarrow> bool" where
  "isnull NaN = True"
| "isnull v = False"

fun the_fin :: "fval \<Rightarrow> real" where
  "the_fin (Fin r) = r"
| "the_fin v = 0"

fun fneg :: "fval \<Rightarrow> fval" where
  "fneg (Fin a) = Fin (- a)"
| "fneg PInf = NInf"
| "fneg NInf = PInf"
| "fneg NaN = NaN"

fun fadd :: "fval \<Rightarrow> fval \<Rightarrow> fval" where
  "fadd NaN v = NaN"
| "fadd v NaN = NaN"
| "fadd (Fin a) (Fin b) = Fin (a + b)"
| "fadd PInf NInf = NaN"
| "fadd NInf PInf = NaN"
| "fadd PInf v = PInf"
| "fadd v PInf = PInf"
| "fadd NInf v = NInf"
| "fadd v NInf = NInf"

definition fsub :: "fval \<Rightarrow> fval \<Rightarrow> fval" where
  "fsub a b = fadd a (fneg b)"

fun fmul :: "fval \<Rightarrow> fval \<Rightarrow> fval" where
  "fmul NaN v = NaN"
| "fmul v NaN = NaN"
| "fmul (Fin a) (Fin b) = Fin (a * b)"
| "fmul PInf (Fin b) = (if b = 0 then NaN else if 0 < b then PInf else NInf)"
| "fmul NInf (Fin b) = (if b = 0 then NaN else if 0 < b then NInf else PInf)"
| "fmul (Fin a) PInf = (if a = 0 then NaN else if 0 < a then PInf else NInf)"
| "fmul (Fin a) NInf = (if a = 0 then NaN else if 0 < a then NInf else PInf)"
| "fmul PInf PInf = PInf"
| "fmul NInf NInf = PInf"
| "fmul PInf NInf = NInf"
| "fmul NInf PInf = NInf"

text \<open>
  Division of floats never raises in numpy: a zero divisor gives not-a-number for a zero
  dividend and an infinity otherwise (the zero divisor is taken as positive).
\<close>

fun fdiv :: "fval \<Rightarrow> fval \<Rightarrow> fval" where
  "fdiv NaN v = NaN"
| "fdiv v NaN = NaN"
| "fdiv (Fin a) (Fin b) =
     (if b \<noteq> 0 then Fin (a / b) else if a = 0 then NaN else if 0 < a then PInf else NInf)"
| "fdiv (Fin a) v = Fin 0"
| "fdiv PInf (Fin b) = (if 0 \<le> b then PInf else NInf)"
| "fdiv NInf (Fin b) = (if 0 \<le> b then NInf else PInf)"
| "fdiv v w = NaN"

text \<open>Comparison of a float with a finite constant; every comparison with NaN is false.\<close>

fun fgt :: "fval \<Rightarrow> real \<Rightarrow> bool" where
  "fgt (Fin a) c = (c < a)"
| "fgt PInf c = True"
| "fgt v c = False"

fun flt :: "fval \<Rightarrow> real \<Rightarrow> bool" where
  "flt (Fin a) c = (a < c)"
| "flt NInf c = True"
| "flt v c = False"

text \<open>The order of non-NaN floats, for minima.\<close>

fun fle :: "fval \<Rightarrow> fval \<Rightarrow> bool" where
  "fle NInf v = True"
| "fle v PInf = True"
| "fle (Fin a) (Fin b) = (a \<le> b)"
| "fle v w = False"

definition fmin :: "fval \<Rightarrow> fval \<Rightarrow> fval" where
  "fmin a b = (if fle a b then a else b)"

definition fsum :: "fval list \<Rightarrow> fval" where
  "fsum vs = foldr fadd vs (Fin 0)"

definition fdot :: "fval list \<Rightarrow> fval list \<Rightarrow> fval" where
  "fdot a b = fsum (map2 fmul a b)"

text \<open>
  An exception is its class, its message and the exception that was being handled when it
  was raised (Python's implicit \<^verbatim>\<open>__context__\<close>), if any.
\<close>

datatype exn_kind = TypeError | ValueError | RuntimeError | LinAlgError | IOError

datatype error = Error (err_kind: exn_kind) (err_msg: string) (err_context: "error option")

text \<open>
  A pandas index carries its dtype. Labels of different dtypes are different labels.
\<close>

datatype index = DatetimeIndex "int list" | Int64Index "int list" | ObjectIndex "string list"

datatype label = TS int | IL int | SL string

fun labels :: "index \<Rightarrow> label list" where
  "labels (DatetimeIndex ts) = map TS ts"
| "labels (Int64Index ns) = map IL ns"
| "labels (ObjectIndex ss) = map SL ss"

fun is_datetime :: "index \<Rightarrow> bool" where
  "is_datetime (DatetimeIndex ts) = True"
| "is_datetime ix = False"

definition index_intersection :: "index \<Rightarrow> index \<Rightarrow> label list" where
  "index_intersection a b = filter (\<lambda>l. l \<in> set (labels b)) (labels a)"

record series =
  s_index :: index
  s_values :: "fval list"

text \<open>The value of a series at a label, NaN where the label is missing (reindexing).\<close>

definition lookup :: "series \<Rightarrow> label \<Rightarrow> fval" where
  "lookup s l = (case map_of (zip (labels (s_index s)) (s_values s)) l of None \<Rightarrow> NaN | Some v \<Rightarrow> v)"

record dataframe =
  df_index :: index
  df_columns :: index
  df_rows :: "fval list list"

text \<open>The shape invariant of a Series and of a DataFrame.\<close>

definition wf_series :: "series \<Rightarrow> bool" where
  "wf_series s = (length (labels (s_index s)) = length (s_values s))"

definition ncols :: "dataframe \<Rightarrow> nat" where
  "ncols df = length (labels (df_columns df))"

definition nrows :: "dataframe \<Rightarrow> nat" where
  "nrows df = length (labels (df_index df))"

definition wf_df :: "dataframe \<Rightarrow> bool" where
  "wf_df df = (length (df_rows df) = nrows df \<and> list_all (\<lambda>row. length row = ncols df) (df_rows df))"

section \<open>Exposure labels: \<^verbatim>\<open>portfolio_analyzer.py\<close>\<close>

text \<open>
  The two arrows of the labels are the code points U+2191 and U+2193, written here as
  their UTF-8 bytes.
\<close>

definition up_arrow :: string where
  "up_arrow = [CHR 0xE2, CHR 0x86, CHR 0x91]"

definition down_arrow :: string where
  "down_arrow = [CHR 0xE2, CHR 0x86, CHR 0x93]"

text \<open>
  \<^verbatim>\<open>interpret_exposure(val)\<close>, for a float \<^verbatim>\<open>val\<close> (any other type raises TypeError
  and is excluded by the argument's type here).
\<close>

definition interpret_exposure :: "fval \<Rightarrow> string" where
  "interpret_exposure val =
     (if fgt val 0.6 then ''Strong exposure '' @ up_arrow
      else if fgt val 0.3 then ''Mild exposure '' @ up_arrow
      else if fgt val 0.1 then ''Slight exposure '' @ up_arrow
      else if flt val (- 0.6) then ''Strong exposure '' @ down_arrow
      else if flt val (- 0.3) then ''Mild exposure '' @ down_arrow
      else if flt val (- 0.1) then ''Slight exposure '' @ down_arrow
      else ''Neutral exposure'')"

section \<open>Portfolio statistics: \<^verbatim>\<open>portfolio_statistics.py\<close>\<close>

text \<open>\<^verbatim>\<open>str.lower\<close>, on the ASCII letters.\<close>

definition char_lower :: "char \<Rightarrow> char" where
  "char_lower c =
     (let n = (of_char c :: nat) in if 65 \<le> n \<and> n \<le> 90 then char_of (n + 32) else c)"

definition lower :: "string \<Rightarrow> string" where
  "lower s = map char_lower s"

definition valid_interval_factors :: "(string \<times> nat) list" where
  "valid_interval_factors = [(''daily'', 252), (''monthly'', 12), (''yearly'', 1)]"

record stats =
  mean_return :: fval
  annualized_return :: fval
  std_dev :: fval
  annualized_volatility :: fval
  sharpe_ratio :: fval
  cumulative_return :: fval
  max_drawdown :: fval

text \<open>
  The exact mean and the exact sample standard deviation (one delta degree of freedom) of
  finite values. \<^verbatim>\<open>Series.mean\<close> and \<^verbatim>\<open>Series.std\<close> return these numbers only where no
  intermediate sum, square or quotient rounds or overflows, as on a series of zeros or of
  small integers; what the two calls return on doubles in general is a parameter of the
  floating-point model below.
\<close>

definition mean :: "real list \<Rightarrow> real" where
  "mean xs = sum_list xs / real (length xs)"

definition std :: "real list \<Rightarrow> fval" where
  "std xs =
     (if length xs \<le> 1 then NaN
      else Fin (sqrt (sum_list (map (\<lambda>x. (x - mean xs)\<^sup>2) xs) / (real (length xs) - 1))))"

text \<open>\<^verbatim>\<open>cumprod\<close> and \<^verbatim>\<open>cummax\<close>: one forward pass with the running value.\<close>

primrec cumprod_from :: "real \<Rightarrow> real list \<Rightarrow> real list" where
  "cumprod_from a [] = []"
| "cumprod_from a (x # xs) = (a * x) # cumprod_from (a * x) xs"

definition cumprod :: "real list \<Rightarrow> real list" where
  "cumprod xs = cumprod_from 1 xs"

primrec cummax_from :: "real \<Rightarrow> real list \<Rightarrow> real list" where
  "cummax_from m [] = []"
| "cummax_from m (x # xs) = max m x # cummax_from (max m x) xs"

fun cummax :: "real list \<Rightarrow> real list" where
  "cummax [] = []"
| "cummax (x # xs) = x # cummax_from x xs"

text \<open>\<^verbatim>\<open>Series.min\<close> skips NaN and is NaN when nothing is left.\<close>

definition nanmin :: "fval list \<Rightarrow> fval" where
  "nanmin vs =
     (case filter (\<lambda>v. \<not> isnull v) vs of [] \<Rightarrow> NaN | x # xs \<Rightarrow> foldl fmin x xs)"

text \<open>
  \<^verbatim>\<open>calculate_portfolio_statistics(portfolio_returns, interval)\<close> in exact arithmetic.
  After the finiteness check every value is finite, and the statistics are computed on
  the reals: this is the function on the inputs at which no double operation rounds or
  overflows, and the instance \<open>exact_fp\<close> of the floating-point model below.
\<close>

definition calculate_portfolio_statistics :: "series \<Rightarrow> string \<Rightarrow> error + stats" where
  "calculate_portfolio_statistics portfolio_returns interval =
     (if s_values portfolio_returns = [] then
        Inl (Error ValueError ''Portfolio return series cannot be empty.'' None)
      else if \<not> list_all isfinite (s_values portfolio_returns) then
        Inl (Error ValueError ''Portfolio return series contains NaN or infinite values.'' None)
      else
        (case map_of valid_interval_factors (lower interval) of
           None \<Rightarrow>
             Inl (Error ValueError
               ''Invalid interval factor. Must be one of: daily, monthly, yearly.'' None)
         | Some interval_factor \<Rightarrow>
             (let r = map the_fin (s_values portfolio_returns);
                  mean_ret = mean r;
                  annualized_ret = mean_ret * real interval_factor;
                  std_d = std r;
                  annualized_vol = fmul std_d (Fin (sqrt (real interval_factor)));
                  sharpe =
                    (if annualized_vol = Fin 0 then NaN
                     else fdiv (Fin annualized_ret) annualized_vol);
                  cumulative = cumprod (map (\<lambda>x. 1 + x) r);
                  cum_return = last cumulative - 1;
                  rolling_max = cummax cumulative;
                  drawdown =
                    map2 (\<lambda>c m. fsub (fdiv (Fin c) (Fin m)) (Fin 1)) cumulative rolling_max
              in Inr \<lparr>mean_return = Fin mean_ret,
                      annualized_return = Fin annualized_ret,
                      std_dev = std_d,
                      annualized_volatility = annualized_vol,
                      sharpe_ratio = sharpe,
                      cumulative_return = Fin cum_return,
                      max_drawdown = nanmin drawdown\<rparr>)))"

text \<open>
  \<^verbatim>\<open>print_portfolio_statistics(portfolio_stats, portfolio_name)\<close> writes one report to
  the console: the report is the name with the record shown (the formatting of the
  numbers is not part of this development). Its checks of the dictionary's keys and of
  the types of its values hold for every record.
\<close>

definition print_portfolio_statistics :: "stats \<Rightarrow> string \<Rightarrow> string \<times> stats" where
  "print_portfolio_statistics portfolio_stats portfolio_name = (portfolio_name, portfolio_stats)"

text \<open>
  \<^verbatim>\<open>compare_portfolio_with_market_benchmark(portfolio_returns, mkt_returns, interval)\<close>:
  the result is the console output, one report after the other.
\<close>

definition compare_portfolio_with_market_benchmark ::
    "series \<Rightarrow> series \<Rightarrow> string \<Rightarrow> error + (string \<times> stats) list" where
  "compare_portfolio_with_market_benchmark portfolio_returns mkt_returns interval =
     (if s_values portfolio_returns = [] \<or> s_values mkt_returns = [] then
        Inl (Error ValueError ''Return series cannot be empty.'' None)
      else if \<not> list_all isfinite (s_values portfolio_returns) then
        Inl (Error ValueError ''Portfolio return series contains NaN or infinite values.'' None)
      else if \<not> list_all isfinite (s_values mkt_returns) then
        Inl (Error ValueError ''Market return series contains NaN or infinite values.'' None)
      else if index_intersection (s_index portfolio_returns) (s_index mkt_returns) = [] then
        Inl (Error ValueError
          ''Portfolio and market return series must share overlapping dates.'' None)
      else if map_of valid_interval_factors (lower interval) = None then
        Inl (Error ValueError ''Invalid interval. Must be 'daily', 'monthly', or 'yearly'.'' None)
      else
        (case calculate_portfolio_statistics portfolio_returns (lower interval) of
           Inl e \<Rightarrow> Inl e
         | Inr portfolio_stats \<Rightarrow>
             (case calculate_portfolio_statistics mkt_returns (lower interval) of
                Inl e \<Rightarrow> Inl e
              | Inr mkt_stats \<Rightarrow>
                  Inr [print_portfolio_statistics portfolio_stats ''Minimum Variance Portfolio'',
                       print_portfolio_statistics mkt_stats ''Market Benchmark''])))"

subsection \<open>The statistics in floating point\<close>

text \<open>
  On doubles every arithmetic operation returns its exact result rounded, and an exact
  result too large for a double becomes an infinity. The rounding \<open>rnd\<close> of a real number
  and the two pandas reductions \<^verbatim>\<open>Series.mean\<close> and \<^verbatim>\<open>Series.std\<close>, whose order of
  summation pandas does not fix, are the parameters of the model.
\<close>

record fp_library =
  rnd :: "real \<Rightarrow> fval"
  series_mean :: "fval list \<Rightarrow> fval"
  series_std :: "fval list \<Rightarrow> fval"

fun isinf :: "fval \<Rightarrow> bool" where
  "isinf PInf = True"
| "isinf NInf = True"
| "isinf v = False"

text \<open>An infinity or a not-a-number is its own rounding.\<close>

definition round_result :: "fp_library \<Rightarrow> fval \<Rightarrow> fval" where
  "round_result lib v =
     (case v of Fin x \<Rightarrow> rnd lib x | PInf \<Rightarrow> PInf | NInf \<Rightarrow> NInf | NaN \<Rightarrow> NaN)"

text \<open>\<^verbatim>\<open>np.sqrt\<close>, before rounding: not-a-number on a negative number.\<close>

fun fsqrt :: "fval \<Rightarrow> fval" where
  "fsqrt (Fin a) = (if a < 0 then NaN else Fin (sqrt a))"
| "fsqrt PInf = PInf"
| "fsqrt v = NaN"

definition fp_add :: "fp_library \<Rightarrow> fval \<Rightarrow> fval \<Rightarrow> fval" where
  "fp_add lib a b = round_result lib (fadd a b)"

definition fp_sub :: "fp_library \<Rightarrow> fval \<Rightarrow> fval \<Rightarrow> fval" where
  "fp_sub lib a b = round_result lib (fsub a b)"

definition fp_mul :: "fp_library \<Rightarrow> fval \<Rightarrow> fval \<Rightarrow> fval" where
  "fp_mul lib a b = round_result lib (fmul a b)"

definition fp_div :: "fp_library \<Rightarrow> fval \<Rightarrow> fval \<Rightarrow> fval" where
  "fp_div lib a b = round_result lib (fdiv a b)"

definition fp_sqrt :: "fp_library \<Rightarrow> fval \<Rightarrow> fval" where
  "fp_sqrt lib a = round_result lib (fsqrt a)"

definition fmax :: "fval \<Rightarrow> fval \<Rightarrow> fval" where
  "fmax a b = (if fle a b then b else a)"

text \<open>
  \<^verbatim>\<open>Series.cumprod\<close> and \<^verbatim>\<open>Series.cummax\<close> on floats: a not-a-number entry stays
  not-a-number and does not enter the running value; the first value is kept as it is.
\<close>

primrec cumprod_fp_from :: "fp_library \<Rightarrow> fval \<Rightarrow> fval list \<Rightarrow> fval list" where
  "cumprod_fp_from lib a [] = []"
| "cumprod_fp_from lib a (x # xs) =
     (if isnull x then NaN # cumprod_fp_from lib a xs
      else fp_mul lib a x # cumprod_fp_from lib (fp_mul lib a x) xs)"

fun cumprod_fp :: "fp_library \<Rightarrow> fval list \<Rightarrow> fval list" where
  "cumprod_fp lib [] = []"
| "cumprod_fp lib (x # xs) =
     (if isnull x then NaN # cumprod_fp_from lib (Fin 1) xs else x # cumprod_fp_from lib x xs)"

primrec cummax_fp_from :: "fval \<Rightarrow> fval list \<Rightarrow> fval list" where
  "cummax_fp_from m [] = []"
| "cummax_fp_from m (x # xs) =
     (if isnull x then NaN # cummax_fp_from m xs
      else fmax m x # cummax_fp_from (fmax m x) xs)"

definition cummax_fp :: "fval list \<Rightarrow> fval list" where
  "cummax_fp xs = cummax_fp_from NInf xs"

text \<open>
  \<^verbatim>\<open>calculate_portfolio_statistics(portfolio_returns, interval)\<close> on doubles, line by
  line: the mean and the standard deviation are what pandas returns, every other
  operation is rounded, and the comparison \<^verbatim>\<open>annualized_volatility == 0\<close> is false of a
  not-a-number and of an infinity.
\<close>

definition calculate_portfolio_statistics_fp ::
    "fp_library \<Rightarrow> series \<Rightarrow> string \<Rightarrow> error + stats" where
  "calculate_portfolio_statistics_fp lib portfolio_returns interval =
     (if s_values portfolio_returns = [] then
        Inl (Error ValueError ''Portfolio return series cannot be empty.'' None)
      else if \<not> list_all isfinite (s_values portfolio_returns) then
        Inl (Error ValueError ''Portfolio return series contains NaN or infinite values.'' None)
      else
        (case map_of valid_interval_factors (lower interval) of
           None \<Rightarrow>
             Inl (Error ValueError
               ''Invalid interval factor. Must be one of: daily, monthly, yearly.'' None)
         | Some interval_factor \<Rightarrow>
             (let mean_ret = series_mean lib (s_values portfolio_returns);
                  annualized_ret = fp_mul lib mean_ret (Fin (real interval_factor));
                  std_d = series_std lib (s_values portfolio_returns);
                  annualized_vol = fp_mul lib std_d (fp_sqrt lib (Fin (real interval_factor)));
                  sharpe =
                    (if annualized_vol = Fin 0 then NaN
                     else fp_div lib annualized_ret annualized_vol);
                  cumulative =
                    cumprod_fp lib (map (fp_add lib (Fin 1)) (s_values portfolio_returns));
                  cum_return = fp_sub lib (last cumulative) (Fin 1);
                  rolling_max = cummax_fp cumulative;
                  drawdown =
                    map2 (\<lambda>c m. fp_sub lib (fp_div lib c m) (Fin 1)) cumulative rolling_max
              in Inr \<lparr>mean_return = mean_ret,
                      annualized_return = annualized_ret,
                      std_dev = std_d,
                      annualized_volatility = annualized_vol,
                      sharpe_ratio = sharpe,
                      cumulative_return = cum_return,
                      max_drawdown = nanmin drawdown\<rparr>)))"

text \<open>
  The library in which nothing rounds or overflows. With it the floating-point function
  is the exact one above; the doubles agree with it at every input whose intermediate
  values are all representable.
\<close>

definition exact_fp :: fp_library where
  "exact_fp = \<lparr>rnd = Fin,
               series_mean = (\<lambda>vs. Fin (mean (map the_fin vs))),
               series_std = (\<lambda>vs. std (map the_fin vs))\<rparr>"

text \<open>
  A library whose rounding is exact below \<open>2 ^ 1024\<close> and an infinity from there on (every
  real number that large overflows on doubles), and whose two reductions have overflowed
  to the positive infinity, as they do on the series \<^verbatim>\<open>[2.0 ** 1023, 2.0 ** 1023]\<close>,
  whose sum is not a double.
\<close>

definition overflowed_fp :: fp_library where
  "overflowed_fp =
     \<lparr>rnd = (\<lambda>x. if 2 ^ 1024 \<le> \<bar>x\<bar> then (if 0 < x then PInf else NInf) else Fin x),
      series_mean = (\<lambda>vs. PInf),
      series_std = (\<lambda>vs. PInf)\<rparr>"

section \<open>Minimum variance portfolio: \<^verbatim>\<open>minimum_variance_portfolio.py\<close>\<close>

text \<open>\<^verbatim>\<open>df.empty\<close> (an axis of length zero) and \<^verbatim>\<open>df.isnull().values.any()\<close>.\<close>

definition df_empty :: "dataframe \<Rightarrow> bool" where
  "df_empty df = (nrows df = 0 \<or> ncols df = 0)"

definition has_nan :: "dataframe \<Rightarrow> bool" where
  "has_nan df = list_ex (list_ex isnull) (df_rows df)"

definition column :: "'a list list \<Rightarrow> nat \<Rightarrow> 'a list" where
  "column rows j = map (\<lambda>row. row ! j) rows"

definition columns :: "nat \<Rightarrow> 'a list list \<Rightarrow> 'a list list" where
  "columns k rows = map (column rows) [0..<k]"

text \<open>The unbiased sample covariance of two columns of equally many finite values.\<close>

definition covariance :: "real list \<Rightarrow> real list \<Rightarrow> real" where
  "covariance a b =
     sum_list (map2 (\<lambda>x y. (x - mean a) * (y - mean b)) a b) / (real (length a) - 1)"

text \<open>
  \<^verbatim>\<open>DataFrame.cov()\<close> on a frame without NaN: the pairwise unbiased covariance of the
  columns. An infinite value in a column makes every covariance with that column
  not-a-number, as do fewer than two observations.
\<close>

definition cov_pair :: "fval list \<Rightarrow> fval list \<Rightarrow> fval" where
  "cov_pair a b =
     (if list_all isfinite a \<and> list_all isfinite b \<and> 1 < length a
      then Fin (covariance (map the_fin a) (map the_fin b)) else NaN)"

definition cov_df :: "dataframe \<Rightarrow> fval list list" where
  "cov_df df = (let cs = columns (ncols df) (df_rows df) in map (\<lambda>a. map (cov_pair a) cs) cs)"

text \<open>
  The products \<^verbatim>\<open>M @ v\<close> and \<^verbatim>\<open>v @ M\<close> of a matrix (a list of rows, as many columns
  as its first row is long) and a vector.
\<close>

definition matvec :: "fval list list \<Rightarrow> fval list \<Rightarrow> fval list" where
  "matvec M v = map (\<lambda>row. fdot row v) M"

definition width :: "'a list list \<Rightarrow> nat" where
  "width M = (case M of [] \<Rightarrow> 0 | row # _ \<Rightarrow> length row)"

definition vecmat :: "fval list \<Rightarrow> fval list list \<Rightarrow> fval list" where
  "vecmat v M = map (\<lambda>j. fdot v (column M j)) [0..<width M]"

text \<open>
  \<^verbatim>\<open>calculate_mvp_weights(returns_df)\<close>. The parameter \<open>linalg_inv\<close> is \<^verbatim>\<open>np.linalg.inv\<close>:
  it returns a matrix of the shape of its argument or raises; only its LinAlgError is
  caught and replaced.
\<close>

definition calculate_mvp_weights ::
    "(fval list list \<Rightarrow> error + fval list list) \<Rightarrow> dataframe \<Rightarrow> error + series" where
  "calculate_mvp_weights linalg_inv returns_df =
     (if df_empty returns_df then
        Inl (Error ValueError ''Input DataFrame cannot be empty.'' None)
      else if has_nan returns_df then
        Inl (Error ValueError
          ''Input DataFrame contains NaN values. Please handle missing data before proceeding.''
          None)
      else if ncols returns_df < 2 then
        Inl (Error ValueError
          ''At least two assets are required to compute the minimum variance portfolio.'' None)
      else if nrows returns_df \<le> ncols returns_df then
        Inl (Error ValueError
          ''Number of observations must exceed the number of assets to ensure covariance matrix invertibility.''
          None)
      else
        (let cov = cov_df returns_df;
             ones = replicate (length cov) (Fin 1)
         in case linalg_inv cov of
              Inl e \<Rightarrow>
                (if err_kind e = LinAlgError then
                   Inl (Error ValueError
                     ''Covariance matrix is singular and cannot be inverted. Try removing collinear or redundant assets.''
                     (Some e))
                 else Inl e)
            | Inr inv_cov \<Rightarrow>
                (let weights = matvec inv_cov ones;
                     total = fdot (vecmat ones inv_cov) ones;
                     weights = map (\<lambda>w. fdiv w total) weights
                 in Inr \<lparr>s_index = df_columns returns_df, s_values = weights\<rparr>)))"

text \<open>
  \<^verbatim>\<open>DataFrame @ Series\<close>: the labels of the columns and of the series must be the same
  set, else ValueError; each row is multiplied with the weights found by label, and the
  result carries the frame's index. Labels are taken to be unique on each side.
\<close>

definition df_matmul :: "dataframe \<Rightarrow> series \<Rightarrow> error + series" where
  "df_matmul df w =
     (if set (labels (df_columns df)) \<noteq> set (labels (s_index w)) then
        Inl (Error ValueError ''matrices are not aligned'' None)
      else
        Inr \<lparr>s_index = df_index df,
             s_values = map (\<lambda>row. fdot row (map (lookup w) (labels (df_columns df)))) (df_rows df)\<rparr>)"

text \<open>
  \<^verbatim>\<open>calculate_mvp_portfolio(returns_df)\<close>. The parameter \<open>matmul\<close> is the operator
  \<^verbatim>\<open>@\<close> of the frame and the weights, \<open>df_matmul\<close> for pandas.
\<close>

definition calculate_mvp_portfolio ::
    "(dataframe \<Rightarrow> series \<Rightarrow> error + series) \<Rightarrow> (fval list list \<Rightarrow> error + fval list list)
      \<Rightarrow> dataframe \<Rightarrow> error + series" where
  "calculate_mvp_portfolio matmul linalg_inv returns_df =
     (if df_empty returns_df then
        Inl (Error ValueError ''Input DataFrame cannot be empty.'' None)
      else if has_nan returns_df then
        Inl (Error ValueError
          ''Input DataFrame contains NaN values. Please handle missing data first.'' None)
      else
        (case calculate_mvp_weights linalg_inv returns_df of
           Inl e \<Rightarrow> Inl e
         | Inr mvp_weights \<Rightarrow>
             (case matmul returns_df mvp_weights of
                Inl e \<Rightarrow> Inl e
              | Inr portfolio_returns \<Rightarrow>
                  (if df_index returns_df \<noteq> s_index portfolio_returns then
                     Inl (Error ValueError
                       ''Mismatch in index between input data and calculated portfolio returns.''
                       None)
                   else Inr portfolio_returns))))"

subsection \<open>The closed form in exact arithmetic\<close>

text \<open>
  The sample covariance matrix of a matrix of reals with \<open>k\<close> columns, matrix products,
  the identity, and the weights \<open>\<Sigma>\<^sup>-\<^sup>1 1 / (1\<^sup>T \<Sigma>\<^sup>-\<^sup>1 1)\<close> of the minimum variance portfolio for a
  given inverse.
\<close>

definition covariance_matrix :: "nat \<Rightarrow> real list list \<Rightarrow> real list list" where
  "covariance_matrix k X = (let cs = columns k X in map (\<lambda>a. map (covariance a) cs) cs)"

definition rdot :: "real list \<Rightarrow> real list \<Rightarrow> real" where
  "rdot a b = sum_list (map2 (*) a b)"

definition rmatvec :: "real list list \<Rightarrow> real list \<Rightarrow> real list" where
  "rmatvec M v = map (\<lambda>row. rdot row v) M"

definition rmat_mul :: "real list list \<Rightarrow> real list list \<Rightarrow> real list list" where
  "rmat_mul A B = map (\<lambda>row. map (\<lambda>j. rdot row (column B j)) [0..<width B]) A"

definition identity_matrix :: "nat \<Rightarrow> real list list" where
  "identity_matrix k = map (\<lambda>i. map (\<lambda>j. if i = j then 1 else 0) [0..<k]) [0..<k]"

definition is_inverse :: "real list list \<Rightarrow> real list list \<Rightarrow> bool" where
  "is_inverse A B =
     (length B = length A \<and> list_all (\<lambda>row. length row = length A) B
      \<and> rmat_mul A B = identity_matrix (length A)
      \<and> rmat_mul B A = identity_matrix (length A))"

definition closed_form_weights :: "real list list \<Rightarrow> real list" where
  "closed_form_weights inv_cov =
     (let ones = replicate (length inv_cov) 1;
          u = rmatvec inv_cov ones
      in map (\<lambda>x. x / rdot ones u) u)"

section \<open>Factor regression: \<^verbatim>\<open>portfolio_analyzer.py\<close>\<close>

text \<open>
  The factor table that \<^verbatim>\<open>create_factor_dataset()\<close> reads from its two files: one row
  of the five factors per month. Reading the files is input, so the outcome of the call
  (the table, or the exception it raised) is an argument of the regression.
\<close>

record factor_row =
  Mom :: fval
  Mkt_rf :: fval
  SMB :: fval
  HML :: fval
  Rf :: fval

type_synonym factor_table = "(int \<times> factor_row) list"

text \<open>
  The two functions of statsmodels that the regression calls: \<^verbatim>\<open>sm.add_constant\<close> on
  the named columns of the design matrix, and \<^verbatim>\<open>sm.OLS(y, X).fit()\<close>, which gives the
  fitted model or raises. Of the fitted model the regression reads the named coefficients
  and, for the log, the text of the summary (which may raise as well).
\<close>

record ols_results =
  params :: "(string \<times> fval) list"
  summary :: "error + string"

record statsmodels =
  add_constant :: "(string \<times> fval list) list \<Rightarrow> (string \<times> fval list) list"
  OLS_fit :: "fval list \<Rightarrow> (string \<times> fval list) list \<Rightarrow> error + ols_results"

text \<open>
  Lines 194 to 201: \<^verbatim>\<open>pd.concat([portfolio_returns, mkt_returns], axis=1)\<close> has one
  row per label of either index (labels taken to be unique in each), with NaN where a
  series has no value; the columns are Portfolio and MKT.
\<close>

definition concat_returns :: "series \<Rightarrow> series \<Rightarrow> (label \<times> fval \<times> fval) list" where
  "concat_returns portfolio_returns mkt_returns =
     map (\<lambda>l. (l, lookup portfolio_returns l, lookup mkt_returns l))
       (labels (s_index portfolio_returns)
        @ filter (\<lambda>l. l \<notin> set (labels (s_index portfolio_returns)))
            (labels (s_index mkt_returns)))"

definition scale_returns :: "(label \<times> fval \<times> fval) list \<Rightarrow> (label \<times> fval \<times> fval) list" where
  "scale_returns joined = map (\<lambda>(l, p, m). (l, fmul p (Fin 100), fmul m (Fin 100))) joined"

text \<open>Line 205: the inner join on the index, in the order of the left frame.\<close>

definition join_factors ::
    "(label \<times> fval \<times> fval) list \<Rightarrow> factor_table \<Rightarrow> (label \<times> fval \<times> fval \<times> factor_row) list" where
  "join_factors joined combined_factors_df =
     concat (map (\<lambda>(l, p, m).
        map (\<lambda>(t, f). (l, p, m, f)) (filter (\<lambda>(t, f). l = TS t) combined_factors_df)) joined)"

definition final_df ::
    "series \<Rightarrow> series \<Rightarrow> factor_table \<Rightarrow> (label \<times> fval \<times> fval \<times> factor_row) list" where
  "final_df portfolio_returns mkt_returns combined_factors_df =
     join_factors (scale_returns (concat_returns portfolio_returns mkt_returns)) combined_factors_df"

text \<open>Lines 211 to 215: the excess return and the four regressors.\<close>

definition portfolio_excess :: "(label \<times> fval \<times> fval \<times> factor_row) list \<Rightarrow> fval list" where
  "portfolio_excess rows = map (\<lambda>(l, p, m, f). fsub p (Rf f)) rows"

definition regressors :: "(label \<times> fval \<times> fval \<times> factor_row) list \<Rightarrow> (string \<times> fval list) list" where
  "regressors rows =
     [(''Mkt_rf'', map (\<lambda>(l, p, m, f). Mkt_rf f) rows),
      (''SMB'', map (\<lambda>(l, p, m, f). SMB f) rows),
      (''HML'', map (\<lambda>(l, p, m, f). HML f) rows),
      (''Mom'', map (\<lambda>(l, p, m, f). Mom f) rows)]"

text \<open>
  \<^verbatim>\<open>factor_analysis_regression(portfolio_returns, mkt_returns, log)\<close>. The result is the
  series of the betas together with the messages written to the log file; the flag
  \<^verbatim>\<open>log\<close> is \<open>log_on\<close> here.
\<close>

definition factor_analysis_regression ::
    "statsmodels \<Rightarrow> error + factor_table \<Rightarrow> series \<Rightarrow> series \<Rightarrow> bool
      \<Rightarrow> error + ((string \<times> fval) list \<times> string list)" where
  "factor_analysis_regression sm create_factor_dataset portfolio_returns mkt_returns log_on =
     (if s_values portfolio_returns = [] \<or> s_values mkt_returns = [] then
        Inl (Error ValueError ''Both input series must be non-empty.'' None)
      else if \<not> is_datetime (s_index portfolio_returns) \<or> \<not> is_datetime (s_index mkt_returns) then
        Inl (Error TypeError ''Both series must have a datetime index.'' None)
      else if index_intersection (s_index portfolio_returns) (s_index mkt_returns) = [] then
        Inl (Error ValueError ''The input series must have overlapping dates.'' None)
      else if list_ex (\<lambda>(l, p, m). isnull p \<or> isnull m)
                (concat_returns portfolio_returns mkt_returns) then
        Inl (Error ValueError
          ''Input return series contain missing values. Please clean the data first.'' None)
      else
        (case create_factor_dataset of
           Inl e \<Rightarrow> Inl e
         | Inr combined_factors_df \<Rightarrow>
             (let rows = final_df portfolio_returns mkt_returns combined_factors_df in
              if length rows < 5 then
                Inl (Error ValueError ''Not enough overlapping data points to run regression.'' None)
              else
                (let X = add_constant sm (regressors rows);
                     y = portfolio_excess rows
                 in case OLS_fit sm y X of
                      Inl e \<Rightarrow>
                        Inl (Error RuntimeError
                          (''Failed to fit OLS regression model: '' @ err_msg e) (Some e))
                    | Inr model \<Rightarrow>
                        (let betas = filter (\<lambda>(name, v). name \<noteq> ''const'') (params model) in
                         if log_on then
                           (case summary model of
                              Inl e \<Rightarrow> Inl e
                            | Inr report \<Rightarrow> Inr (betas, [CHR 0x0A # report]))
                         else Inr (betas, []))))))"

section \<open>Theorems\<close>

subsection \<open>Exposure labels\<close>

text \<open>
  C9 (as amended): \<^verbatim>\<open>interpret_exposure(0.7)\<close> is \<^verbatim>\<open>Strong exposure\<close> followed by a space
  and the upwards arrow, \<^verbatim>\<open>interpret_exposure(-0.05)\<close> is \<^verbatim>\<open>Neutral exposure\<close>, and for
  every finite input each of the seven labels is returned exactly on its threshold
  interval: above 0.6, in (0.3, 0.6], in (0.1, 0.3], below -0.6, in [-0.6, -0.3),
  in [-0.3, -0.1), and in [-0.1, 0.1] for the neutral label.
\<close>

theorem interpret_exposure_thresholds:
  "interpret_exposure (Fin (7 / 10)) = ''Strong exposure '' @ up_arrow
   \<and> interpret_exposure (Fin (- 5 / 100)) = ''Neutral exposure''
   \<and> (interpret_exposure (Fin v) = ''Strong exposure '' @ up_arrow) = (0.6 < v)
   \<and> (interpret_exposure (Fin v) = ''Mild exposure '' @ up_arrow) = (0.3 < v \<and> v \<le> 0.6)
   \<and> (interpret_exposure (Fin v) = ''Slight exposure '' @ up_arrow) = (0.1 < v \<and> v \<le> 0.3)
   \<and> (interpret_exposure (Fin v) = ''Strong exposure '' @ down_arrow) = (v < - 0.6)
   \<and> (interpret_exposure (Fin v) = ''Mild exposure '' @ down_arrow) = (- 0.6 \<le> v \<and> v < - 0.3)
   \<and> (interpret_exposure (Fin v) = ''Slight exposure '' @ down_arrow) = (- 0.3 \<le> v \<and> v < - 0.1)
   \<and> (interpret_exposure (Fin v) = ''Neutral exposure'') = (- 0.1 \<le> v \<and> v \<le> 0.1)"
  by (auto simp: interpret_exposure_def up_arrow_def down_arrow_def)

text \<open>
  C9 (as stated) fails: the label for 0.7 is not the text
  \<^verbatim>\<open>Strong exposure, positive direction\<close>.
\<close>

theorem interpret_exposure_label_counterexample:
  "interpret_exposure (Fin (7 / 10)) \<noteq> ''Strong exposure, positive direction''"
  by (simp add: interpret_exposure_def up_arrow_def)

subsection \<open>Statistics\<close>

lemma lower_tags:
  "lower ''daily'' = ''daily''" "lower ''monthly'' = ''monthly''" "lower ''yearly'' = ''yearly''"
  by (simp_all add: lower_def char_lower_def)

lemma char_lower_idem: "char_lower (char_lower c) = char_lower c"
  by (simp add: char_lower_def Let_def)

lemma lower_idem: "lower (lower s) = lower s"
  by (simp add: lower_def char_lower_idem)

lemma cumprod_from_ones: "cumprod_from 1 (replicate n 1) = replicate n 1"
  by (induction n) simp_all

lemma cummax_from_ones: "cummax_from 1 (replicate n 1) = replicate n 1"
  by (induction n) simp_all

lemma cummax_ones: "cummax (replicate n 1) = replicate n 1"
  by (cases n) (simp_all add: cummax_from_ones)

lemma nanmin_zeros: "0 < n \<Longrightarrow> nanmin (replicate n (Fin 0)) = Fin 0"
proof -
  have f: "foldl fmin (Fin 0) (replicate k (Fin 0)) = Fin 0" for k
    by (induction k) (simp_all add: fmin_def)
  assume "0 < n"
  then obtain k where "n = Suc k" by (cases n) auto
  then show ?thesis by (simp add: nanmin_def f)
qed

lemma mean_zeros: "mean (replicate n 0) = 0"
  by (simp add: mean_def sum_list_replicate)

lemma std_zeros: "std (replicate n 0) = (if n \<le> 1 then NaN else Fin 0)"
  by (simp add: std_def mean_zeros sum_list_replicate)

lemma cumprod_ones: "cumprod (replicate n 1) = replicate n 1"
  by (simp add: cumprod_def cumprod_from_ones)

lemma drawdown_ones:
  "map2 (\<lambda>c m. fsub (fdiv (Fin c) (Fin m)) (Fin 1)) (replicate n 1) (replicate n 1)
      = replicate n (Fin 0)"
  by (simp add: zip_replicate fsub_def)

text \<open>
  C5 (as amended): for a constant-zero series of length at least 1 and a recognized
  frequency, the mean return, annualized return, cumulative return and maximum drawdown
  are 0 and the Sharpe ratio is not-a-number; the standard deviation and the annualized
  volatility are 0 when the series has at least two values, and not-a-number when it has
  exactly one (the sample standard deviation of one observation is undefined).
\<close>

theorem zero_series_statistics:
  assumes "0 < n" and "lower interval \<in> {''daily'', ''monthly'', ''yearly''}"
  shows "calculate_portfolio_statistics \<lparr>s_index = ix, s_values = replicate n (Fin 0)\<rparr> interval =
     Inr \<lparr>mean_return = Fin 0, annualized_return = Fin 0,
          std_dev = (if n = 1 then NaN else Fin 0),
          annualized_volatility = (if n = 1 then NaN else Fin 0),
          sharpe_ratio = NaN, cumulative_return = Fin 0, max_drawdown = Fin 0\<rparr>"
proof -
  obtain f where f: "map_of valid_interval_factors (lower interval) = Some f"
    using assms(2) by (auto simp: valid_interval_factors_def)
  have fin: "list_all isfinite (replicate n (Fin 0))" by (simp add: list_all_iff)
  show ?thesis
  proof (cases "n = 1")
    case True
    then show ?thesis
      by (simp add: calculate_portfolio_statistics_def f Let_def std_def cumprod_def
          nanmin_def fsub_def mean_def)
  next
    case False
    with assms(1) have "1 < n" by simp
    then show ?thesis
      by (simp add: calculate_portfolio_statistics_def f fin Let_def std_zeros mean_zeros
          cumprod_ones cummax_ones zip_replicate fsub_def nanmin_zeros)
  qed
qed

text \<open>C5 at three zeros, with the frequency written \<^verbatim>\<open>Monthly\<close>.\<close>

theorem zero_series_witness:
  "calculate_portfolio_statistics \<lparr>s_index = Int64Index [0, 1, 2], s_values = replicate 3 (Fin 0)\<rparr> ''Monthly'' =
     Inr \<lparr>mean_return = Fin 0, annualized_return = Fin 0,
          std_dev = Fin 0,
          annualized_volatility = Fin 0,
          sharpe_ratio = NaN, cumulative_return = Fin 0, max_drawdown = Fin 0\<rparr>"
proof -
  have l: "lower ''Monthly'' = ''monthly''" by code_simp
  show ?thesis using zero_series_statistics [of 3 "''Monthly''" "Int64Index [0, 1, 2]"]
    by (simp add: l)
qed

text \<open>
  C5 (as stated) fails at length 1: the standard deviation and the annualized volatility
  of the series \<^verbatim>\<open>[0.0]\<close> are not-a-number, not 0.
\<close>

theorem single_zero_counterexample:
  "calculate_portfolio_statistics \<lparr>s_index = Int64Index [0], s_values = [Fin 0]\<rparr> ''monthly'' =
     Inr \<lparr>mean_return = Fin 0, annualized_return = Fin 0, std_dev = NaN,
          annualized_volatility = NaN, sharpe_ratio = NaN, cumulative_return = Fin 0,
          max_drawdown = Fin 0\<rparr>
   \<and> calculate_portfolio_statistics \<lparr>s_index = Int64Index [0], s_values = [Fin 0]\<rparr> ''monthly'' \<noteq>
     Inr \<lparr>mean_return = Fin 0, annualized_return = Fin 0, std_dev = Fin 0,
          annualized_volatility = Fin 0, sharpe_ratio = NaN, cumulative_return = Fin 0,
          max_drawdown = Fin 0\<rparr>"
  by (simp add: calculate_portfolio_statistics_def lower_tags valid_interval_factors_def Let_def std_def cumprod_def
          nanmin_def fsub_def mean_def)

lemma recognized_factor:
  assumes "lower interval \<in> {''daily'', ''monthly'', ''yearly''}"
  obtains f where "map_of valid_interval_factors (lower interval) = Some f" and "0 < f"
  using assms by (auto simp: valid_interval_factors_def)

lemma statistics_lower:
  "calculate_portfolio_statistics s (lower interval) = calculate_portfolio_statistics s interval"
  by (simp add: calculate_portfolio_statistics_def lower_idem)

lemma statistics_returns:
  assumes "s_values s \<noteq> []" and "list_all isfinite (s_values s)"
    and "lower interval \<in> {''daily'', ''monthly'', ''yearly''}"
  shows "\<exists>st. calculate_portfolio_statistics s interval = Inr st"
proof -
  obtain f where "map_of valid_interval_factors (lower interval) = Some f"
    using assms(3) by (rule recognized_factor)
  then show ?thesis
    using assms(1,2) by (simp add: calculate_portfolio_statistics_def Let_def)
qed

text \<open>Rounding and not-a-number; the exact library.\<close>

lemma fdiv_nan_iff:
  "(fdiv a b = NaN) = (a = NaN \<or> b = NaN \<or> (a = Fin 0 \<and> b = Fin 0) \<or> (isinf a \<and> isinf b))"
  by (cases a; cases b) auto

lemma round_result_nan:
  assumes "\<And>x. rnd lib x \<noteq> NaN"
  shows "(round_result lib v = NaN) = (v = NaN)"
  using assms by (cases v) (simp_all add: round_result_def)

lemma round_exact [simp]: "round_result exact_fp v = v"
  by (cases v) (simp_all add: round_result_def exact_fp_def)

lemma exact_ops [simp]:
  "fp_add exact_fp a b = fadd a b" "fp_sub exact_fp a b = fsub a b"
  "fp_mul exact_fp a b = fmul a b" "fp_div exact_fp a b = fdiv a b"
  "fp_sqrt exact_fp a = fsqrt a"
  "series_mean exact_fp vs = Fin (mean (map the_fin vs))"
  "series_std exact_fp vs = std (map the_fin vs)"
  by (simp_all add: fp_add_def fp_sub_def fp_mul_def fp_div_def fp_sqrt_def)
    (simp_all add: exact_fp_def)

lemma cumprod_fp_from_exact:
  "cumprod_fp_from exact_fp (Fin a) (map Fin xs) = map Fin (cumprod_from a xs)"
  by (induction xs arbitrary: a) simp_all

lemma cumprod_fp_exact: "cumprod_fp exact_fp (map Fin xs) = map Fin (cumprod xs)"
  by (cases xs) (simp_all add: cumprod_def cumprod_fp_from_exact)

lemma cummax_fp_from_exact:
  "cummax_fp_from (Fin m) (map Fin xs) = map Fin (cummax_from m xs)"
  by (induction xs arbitrary: m) (simp_all add: fmax_def max_def)

lemma cummax_fp_exact: "cummax_fp (map Fin xs) = map Fin (cummax xs)"
  by (cases xs) (simp_all add: cummax_fp_def fmax_def cummax_fp_from_exact)

lemma finite_values: "list_all isfinite vs \<Longrightarrow> map Fin (map the_fin vs) = vs"
proof (induction vs)
  case Nil
  show ?case by simp
next
  case (Cons v vs)
  then show ?case by (cases v) simp_all
qed

text \<open>With the exact library the floating-point function is the exact one.\<close>

lemma statistics_exact_instance:
  "calculate_portfolio_statistics_fp exact_fp s interval = calculate_portfolio_statistics s interval"
proof (cases "s_values s \<noteq> [] \<and> list_all isfinite (s_values s)")
  case False
  then show ?thesis
    by (auto simp: calculate_portfolio_statistics_fp_def calculate_portfolio_statistics_def)
next
  case True
  define r where "r = map the_fin (s_values s)"
  have vals: "s_values s = map Fin r"
    unfolding r_def using True finite_values [of "s_values s"] by simp
  have ne: "r \<noteq> []" using True by (simp add: r_def)
  have add1: "map (fp_add exact_fp (Fin 1)) (map Fin r) = map Fin (map (\<lambda>x. 1 + x) r)"
    by simp
  have lastc: "last (map Fin (cumprod (map (\<lambda>x. 1 + x) r)))
      = Fin (last (cumprod (map (\<lambda>x. 1 + x) r)))"
    using ne by (cases r) (simp_all add: cumprod_def last_map)
  have dd: "map2 (\<lambda>c m. fp_sub exact_fp (fp_div exact_fp c m) (Fin 1)) (map Fin cs) (map Fin ms)
      = map2 (\<lambda>c m. fsub (fdiv (Fin c) (Fin m)) (Fin 1)) cs ms" for cs ms
    by (auto simp: zip_map_map)
  have mt: "map (the_fin \<circ> Fin) r = r" by (simp add: comp_def)
  show ?thesis
    unfolding calculate_portfolio_statistics_fp_def calculate_portfolio_statistics_def vals
      Let_def add1 cumprod_fp_exact cummax_fp_exact lastc dd mt
    by (simp add: mt fsub_def split: option.splits)
qed

text \<open>
  C6 (as amended): for a non-empty series of finite values and a recognized frequency,
  and for every floating-point library whose rounding of a real number is never
  not-a-number, no error is raised; the mean and the standard deviation are those of
  pandas, the annualized return is the rounded product of the mean and the factor and
  the annualized volatility the rounded product of the standard deviation and the
  rounded square root of the factor. The Sharpe ratio is not-a-number when the
  annualized volatility is exactly zero and otherwise the rounded quotient of the
  annualized return by the annualized volatility. It is therefore not-a-number if and
  only if the annualized volatility is exactly zero, the annualized volatility or the
  annualized return is not-a-number, or both are infinite.
\<close>

theorem sharpe_ratio_floating_point:
  assumes "s_values s \<noteq> []" and "list_all isfinite (s_values s)"
    and "lower interval \<in> {''daily'', ''monthly'', ''yearly''}"
    and "\<And>x. rnd lib x \<noteq> NaN"
  shows "\<exists>st f. calculate_portfolio_statistics_fp lib s interval = Inr st
     \<and> map_of valid_interval_factors (lower interval) = Some f
     \<and> mean_return st = series_mean lib (s_values s)
     \<and> std_dev st = series_std lib (s_values s)
     \<and> annualized_return st = fp_mul lib (mean_return st) (Fin (real f))
     \<and> annualized_volatility st = fp_mul lib (std_dev st) (fp_sqrt lib (Fin (real f)))
     \<and> sharpe_ratio st =
         (if annualized_volatility st = Fin 0 then NaN
          else fp_div lib (annualized_return st) (annualized_volatility st))
     \<and> (sharpe_ratio st = NaN) =
         (annualized_volatility st = Fin 0 \<or> annualized_volatility st = NaN
          \<or> annualized_return st = NaN
          \<or> (isinf (annualized_return st) \<and> isinf (annualized_volatility st)))"
proof -
  obtain f where f: "map_of valid_interval_factors (lower interval) = Some f"
    using assms(3) by (rule recognized_factor)
  have nan: "(fp_div lib a b = NaN) = (fdiv a b = NaN)" for a b
    unfolding fp_div_def using assms(4) by (rule round_result_nan)
  show ?thesis
    using assms(1,2) f
    by (auto simp: calculate_portfolio_statistics_fp_def Let_def nan fdiv_nan_iff)
qed

text \<open>
  C6 at two runs. The yearly series \<^verbatim>\<open>[1.0, 3.0, 5.0]\<close>, at which no operation rounds:
  the mean is 3, the standard deviation 2 and the Sharpe ratio 1.5. The monthly series
  \<^verbatim>\<open>[2.0 ** 1023, 2.0 ** 1023]\<close>, which passes the finiteness check and whose mean and
  standard deviation overflow: the annualized return and the annualized volatility are
  infinite, the volatility is not zero and the Sharpe ratio is not-a-number.
\<close>

theorem sharpe_ratio_floating_point_witness:
  "(\<exists>st. calculate_portfolio_statistics_fp exact_fp
        \<lparr>s_index = Int64Index [0, 1, 2], s_values = [Fin 1, Fin 3, Fin 5]\<rparr> ''yearly'' = Inr st
      \<and> annualized_return st = Fin 3 \<and> annualized_volatility st = Fin 2
      \<and> sharpe_ratio st = Fin (3 / 2))
   \<and> (\<exists>st. calculate_portfolio_statistics_fp overflowed_fp
        \<lparr>s_index = Int64Index [0, 1], s_values = [Fin (2 ^ 1023), Fin (2 ^ 1023)]\<rparr> ''monthly''
          = Inr st
      \<and> annualized_return st = PInf \<and> annualized_volatility st = PInf
      \<and> sharpe_ratio st = NaN)"
proof -
  let ?s = "\<lparr>s_index = Int64Index [0, 1, 2], s_values = [Fin 1, Fin 3, Fin 5]\<rparr>"
  let ?t = "\<lparr>s_index = Int64Index [0, 1], s_values = [Fin (2 ^ 1023), Fin (2 ^ 1023)]\<rparr>"
  have "\<exists>st f. calculate_portfolio_statistics_fp exact_fp ?s ''yearly'' = Inr st
     \<and> map_of valid_interval_factors (lower ''yearly'') = Some f
     \<and> mean_return st = series_mean exact_fp (s_values ?s)
     \<and> std_dev st = series_std exact_fp (s_values ?s)
     \<and> annualized_return st = fp_mul exact_fp (mean_return st) (Fin (real f))
     \<and> annualized_volatility st = fp_mul exact_fp (std_dev st) (fp_sqrt exact_fp (Fin (real f)))
     \<and> sharpe_ratio st =
         (if annualized_volatility st = Fin 0 then NaN
          else fp_div exact_fp (annualized_return st) (annualized_volatility st))
     \<and> (sharpe_ratio st = NaN) =
         (annualized_volatility st = Fin 0 \<or> annualized_volatility st = NaN
          \<or> annualized_return st = NaN
          \<or> (isinf (annualized_return st) \<and> isinf (annualized_volatility st)))"
    by (rule sharpe_ratio_floating_point) (simp_all add: lower_tags exact_fp_def)
  then obtain st f where st: "calculate_portfolio_statistics_fp exact_fp ?s ''yearly'' = Inr st"
    and f: "map_of valid_interval_factors (lower ''yearly'') = Some f"
    and m: "mean_return st = series_mean exact_fp (s_values ?s)"
    and d: "std_dev st = series_std exact_fp (s_values ?s)"
    and ar: "annualized_return st = fp_mul exact_fp (mean_return st) (Fin (real f))"
    and av: "annualized_volatility st = fp_mul exact_fp (std_dev st) (fp_sqrt exact_fp (Fin (real f)))"
    and sh: "sharpe_ratio st =
         (if annualized_volatility st = Fin 0 then NaN
          else fp_div exact_fp (annualized_return st) (annualized_volatility st))"
    by blast
  from f have f1: "f = 1" by (simp add: lower_tags valid_interval_factors_def)
  have m3: "mean_return st = Fin 3" unfolding m by (simp add: mean_def)
  have "std [1, 3, 5] = Fin 2" by (simp add: std_def mean_def)
  then have d2: "std_dev st = Fin 2" unfolding d by simp
  have ar3: "annualized_return st = Fin 3" unfolding ar m3 f1 by simp
  have av2: "annualized_volatility st = Fin 2" unfolding av d2 f1 by simp
  have "sharpe_ratio st = Fin (3 / 2)" unfolding sh ar3 av2 by simp
  with st ar3 av2 have first: "\<exists>st. calculate_portfolio_statistics_fp exact_fp ?s ''yearly'' = Inr st
      \<and> annualized_return st = Fin 3 \<and> annualized_volatility st = Fin 2
      \<and> sharpe_ratio st = Fin (3 / 2)"
    by blast
  have "\<exists>st f. calculate_portfolio_statistics_fp overflowed_fp ?t ''monthly'' = Inr st
     \<and> map_of valid_interval_factors (lower ''monthly'') = Some f
     \<and> mean_return st = series_mean overflowed_fp (s_values ?t)
     \<and> std_dev st = series_std overflowed_fp (s_values ?t)
     \<and> annualized_return st = fp_mul overflowed_fp (mean_return st) (Fin (real f))
     \<and> annualized_volatility st
         = fp_mul overflowed_fp (std_dev st) (fp_sqrt overflowed_fp (Fin (real f)))
     \<and> sharpe_ratio st =
         (if annualized_volatility st = Fin 0 then NaN
          else fp_div overflowed_fp (annualized_return st) (annualized_volatility st))
     \<and> (sharpe_ratio st = NaN) =
         (annualized_volatility st = Fin 0 \<or> annualized_volatility st = NaN
          \<or> annualized_return st = NaN
          \<or> (isinf (annualized_return st) \<and> isinf (annualized_volatility st)))"
    by (rule sharpe_ratio_floating_point) (simp_all add: lower_tags overflowed_fp_def)
  then obtain su g where su: "calculate_portfolio_statistics_fp overflowed_fp ?t ''monthly'' = Inr su"
    and g: "map_of valid_interval_factors (lower ''monthly'') = Some g"
    and m': "mean_return su = series_mean overflowed_fp (s_values ?t)"
    and d': "std_dev su = series_std overflowed_fp (s_values ?t)"
    and ar': "annualized_return su = fp_mul overflowed_fp (mean_return su) (Fin (real g))"
    and av': "annualized_volatility su
         = fp_mul overflowed_fp (std_dev su) (fp_sqrt overflowed_fp (Fin (real g)))"
    and iff: "(sharpe_ratio su = NaN) =
         (annualized_volatility su = Fin 0 \<or> annualized_volatility su = NaN
          \<or> annualized_return su = NaN
          \<or> (isinf (annualized_return su) \<and> isinf (annualized_volatility su)))"
    by blast
  from g have g12: "g = 12" by (simp add: lower_tags valid_interval_factors_def)
  have mi: "mean_return su = PInf" unfolding m' by (simp add: overflowed_fp_def)
  have di: "std_dev su = PInf" unfolding d' by (simp add: overflowed_fp_def)
  have "sqrt 12 < sqrt 16" by (simp only: real_sqrt_less_iff)
  then have s12: "\<not> 2 ^ 1024 \<le> \<bar>sqrt 12\<bar>" by simp
  have sq: "fp_sqrt overflowed_fp (Fin 12) = Fin (sqrt 12)"
    using s12 by (simp add: fp_sqrt_def round_result_def overflowed_fp_def)
  have ari: "annualized_return su = PInf"
    unfolding ar' mi g12 by (simp add: fp_mul_def round_result_def)
  have avi: "annualized_volatility su = PInf"
    unfolding av' di g12 using sq by (simp add: fp_mul_def round_result_def)
  have "sharpe_ratio su = NaN"
    unfolding iff ari avi by simp
  with su ari avi have "\<exists>st. calculate_portfolio_statistics_fp overflowed_fp ?t ''monthly'' = Inr st
      \<and> annualized_return st = PInf \<and> annualized_volatility st = PInf
      \<and> sharpe_ratio st = NaN"
    by blast
  with first show ?thesis by blast
qed

text \<open>
  C6 (as stated) fails at the one-value monthly series \<^verbatim>\<open>[1.0]\<close>, at which no operation
  rounds: the sample standard deviation of one observation is not-a-number, so is the
  annualized volatility, and the Sharpe ratio is not-a-number although the annualized
  volatility is not zero.
\<close>

theorem single_observation_sharpe_counterexample:
  "calculate_portfolio_statistics_fp exact_fp
       \<lparr>s_index = Int64Index [0], s_values = [Fin 1]\<rparr> ''monthly'' =
     Inr \<lparr>mean_return = Fin 1, annualized_return = Fin 12, std_dev = NaN,
          annualized_volatility = NaN, sharpe_ratio = NaN, cumulative_return = Fin 1,
          max_drawdown = Fin 0\<rparr>
   \<and> sharpe_ratio (projr (calculate_portfolio_statistics_fp exact_fp
        \<lparr>s_index = Int64Index [0], s_values = [Fin 1]\<rparr> ''monthly'')) = NaN
   \<and> annualized_volatility (projr (calculate_portfolio_statistics_fp exact_fp
        \<lparr>s_index = Int64Index [0], s_values = [Fin 1]\<rparr> ''monthly'')) \<noteq> Fin 0"
  by (simp add: statistics_exact_instance calculate_portfolio_statistics_def lower_tags
      valid_interval_factors_def Let_def std_def cumprod_def nanmin_def fsub_def mean_def)

text \<open>
  C10: for two non-empty series of finite values and a recognized frequency, the
  comparison fails with a ValueError when the two indices share no label, and otherwise
  reports, for each series, exactly the record that
  \<^verbatim>\<open>calculate_portfolio_statistics\<close> computes from that whole series: neither series
  is restricted to the common dates.
\<close>

theorem compare_uses_full_series:
  assumes "s_values p \<noteq> []" and "list_all isfinite (s_values p)"
    and "s_values m \<noteq> []" and "list_all isfinite (s_values m)"
    and "lower interval \<in> {''daily'', ''monthly'', ''yearly''}"
  shows "\<exists>sp sm. calculate_portfolio_statistics p interval = Inr sp
     \<and> calculate_portfolio_statistics m interval = Inr sm
     \<and> compare_portfolio_with_market_benchmark p m interval =
         (if index_intersection (s_index p) (s_index m) = [] then
            Inl (Error ValueError
              ''Portfolio and market return series must share overlapping dates.'' None)
          else Inr [(''Minimum Variance Portfolio'', sp), (''Market Benchmark'', sm)])"
proof -
  obtain sp where sp: "calculate_portfolio_statistics p interval = Inr sp"
    using statistics_returns [OF assms(1,2,5)] by blast
  obtain sm where sm: "calculate_portfolio_statistics m interval = Inr sm"
    using statistics_returns [OF assms(3,4,5)] by blast
  obtain f where f: "map_of valid_interval_factors (lower interval) = Some f"
    using assms(5) by (rule recognized_factor)
  have "compare_portfolio_with_market_benchmark p m interval =
         (if index_intersection (s_index p) (s_index m) = [] then
            Inl (Error ValueError
              ''Portfolio and market return series must share overlapping dates.'' None)
          else Inr [(''Minimum Variance Portfolio'', sp), (''Market Benchmark'', sm)])"
    using assms(1-4)
    by (simp add: compare_portfolio_with_market_benchmark_def statistics_lower sp sm f
        print_portfolio_statistics_def)
  with sp sm show ?thesis by blast
qed

text \<open>
  C10 at a portfolio on dates 1, 2, 3 and a benchmark on dates 3, 4: the only common
  date is 3, and the two mean returns are those of the whole series.
\<close>

theorem compare_witness:
  "\<exists>sp sm. calculate_portfolio_statistics
        \<lparr>s_index = DatetimeIndex [1, 2, 3], s_values = [Fin 1, Fin 0, Fin 0]\<rparr> ''monthly'' = Inr sp
     \<and> calculate_portfolio_statistics
        \<lparr>s_index = DatetimeIndex [3, 4], s_values = [Fin 0, Fin 1]\<rparr> ''monthly'' = Inr sm
     \<and> compare_portfolio_with_market_benchmark
        \<lparr>s_index = DatetimeIndex [1, 2, 3], s_values = [Fin 1, Fin 0, Fin 0]\<rparr>
        \<lparr>s_index = DatetimeIndex [3, 4], s_values = [Fin 0, Fin 1]\<rparr> ''monthly'' =
         Inr [(''Minimum Variance Portfolio'', sp), (''Market Benchmark'', sm)]
     \<and> mean_return sp = Fin (1 / 3) \<and> mean_return sm = Fin (1 / 2)"
proof -
  let ?p = "\<lparr>s_index = DatetimeIndex [1, 2, 3], s_values = [Fin 1, Fin 0, Fin 0]\<rparr>"
  let ?m = "\<lparr>s_index = DatetimeIndex [3, 4], s_values = [Fin 0, Fin 1]\<rparr>"
  from compare_uses_full_series [of ?p ?m "''monthly''"]
  obtain sp sm where a: "calculate_portfolio_statistics ?p ''monthly'' = Inr sp"
    and b: "calculate_portfolio_statistics ?m ''monthly'' = Inr sm"
    and c: "compare_portfolio_with_market_benchmark ?p ?m ''monthly'' =
         Inr [(''Minimum Variance Portfolio'', sp), (''Market Benchmark'', sm)]"
    by (auto simp: lower_tags index_intersection_def)
  have "mean_return sp = Fin (1 / 3)"
    using a by (auto simp: calculate_portfolio_statistics_def lower_tags
        valid_interval_factors_def Let_def mean_def)
  moreover have "mean_return sm = Fin (1 / 2)"
    using b by (auto simp: calculate_portfolio_statistics_def lower_tags
        valid_interval_factors_def Let_def mean_def)
  ultimately show ?thesis using a b c by blast
qed

subsection \<open>From lists of floats to sums of reals\<close>

text \<open>
  The quadratic form of a sample covariance matrix is a sum of squares. So when \<open>b\<close> is a
  right inverse of the covariance matrix of the deviations \<open>d\<close>, the sum of all entries of
  \<open>b\<close>, which is \<open>1\<^sup>T \<Sigma>\<^sup>-\<^sup>1 1\<close>, is positive.
\<close>

lemma cov_inverse_row_sums_pos:
  fixes d :: "nat \<Rightarrow> nat \<Rightarrow> real" and b :: "nat \<Rightarrow> nat \<Rightarrow> real"
  assumes n: "1 < n" and K: "0 < K"
    and inv: "\<And>i j. i < K \<Longrightarrow> j < K \<Longrightarrow>
      (\<Sum>l<K. ((\<Sum>t<n. d i t * d l t) / (real n - 1)) * b l j) = (if i = j then 1 else 0)"
  shows "0 < (\<Sum>l<K. \<Sum>j<K. b l j)"
proof -
  define c where "c = real n - 1"
  have c: "0 < c" using n by (simp add: c_def)
  define S where "S i l = (\<Sum>t<n. d i t * d l t) / c" for i l
  define y where "y l = (\<Sum>j<K. b l j)" for l
  define z where "z t = (\<Sum>l<K. d l t * y l)" for t
  have Sy: "(\<Sum>l<K. S i l * y l) = 1" if "i < K" for i
  proof -
    have "(\<Sum>l<K. S i l * y l) = (\<Sum>l<K. \<Sum>j<K. S i l * b l j)"
      by (simp add: y_def sum_distrib_left)
    also have "\<dots> = (\<Sum>j<K. \<Sum>l<K. S i l * b l j)"
      by (rule sum.swap)
    also have "\<dots> = (\<Sum>j<K. if i = j then 1 else 0)"
      using inv [OF that] by (intro sum.cong refl) (simp add: S_def c_def)
    also have "\<dots> = 1"
      using that by simp
    finally show ?thesis .
  qed
  have Sz: "(\<Sum>l<K. S i l * y l) = (\<Sum>t<n. d i t * z t) / c" for i
  proof -
    have "(\<Sum>l<K. S i l * y l) = (\<Sum>l<K. \<Sum>t<n. d i t * d l t * y l) / c"
      by (simp add: S_def sum_divide_distrib sum_distrib_right)
    also have "(\<Sum>l<K. \<Sum>t<n. d i t * d l t * y l) = (\<Sum>t<n. \<Sum>l<K. d i t * d l t * y l)"
      by (rule sum.swap)
    also have "\<dots> = (\<Sum>t<n. d i t * z t)"
      by (simp add: z_def sum_distrib_left mult.assoc)
    finally show ?thesis .
  qed
  have total: "(\<Sum>i<K. y i) = (\<Sum>t<n. z t * z t) / c"
  proof -
    have "(\<Sum>i<K. y i) = (\<Sum>i<K. y i * (\<Sum>l<K. S i l * y l))"
      by (intro sum.cong refl) (simp add: Sy)
    also have "\<dots> = (\<Sum>i<K. \<Sum>t<n. d i t * y i * z t) / c"
      by (simp add: Sz sum_divide_distrib sum_distrib_left mult.assoc mult.left_commute)
    also have "(\<Sum>i<K. \<Sum>t<n. d i t * y i * z t) = (\<Sum>t<n. \<Sum>i<K. d i t * y i * z t)"
      by (rule sum.swap)
    also have "\<dots> = (\<Sum>t<n. z t * z t)"
      by (simp add: z_def sum_distrib_right)
    finally show ?thesis .
  qed
  have nonneg: "0 \<le> (\<Sum>t<n. z t * z t)" by (intro sum_nonneg) simp
  have "(\<Sum>t<n. z t * z t) \<noteq> 0"
  proof
    assume "(\<Sum>t<n. z t * z t) = 0"
    then have "\<forall>t\<in>{..<n}. z t * z t = 0"
      by (subst (asm) sum_nonneg_eq_0_iff) auto
    then have "(\<Sum>t<n. d 0 t * z t) = 0" by simp
    then have "(\<Sum>l<K. S 0 l * y l) = 0" by (simp add: Sz)
    with Sy [OF K] show False by simp
  qed
  with nonneg have "0 < (\<Sum>t<n. z t * z t)" by simp
  with c have "0 < (\<Sum>i<K. y i)" by (simp add: total)
  then show ?thesis by (simp add: y_def)
qed

text \<open>Sums and products of finite floats are those of the reals.\<close>

lemma fsum_Fin: "fsum (map Fin xs) = Fin (sum_list xs)"
  by (induction xs) (simp_all add: fsum_def)

lemma fdot_Fin: "fdot (map Fin a) (map Fin b) = Fin (rdot a b)"
proof -
  have "map2 fmul (map Fin a) (map Fin b) = map Fin (map2 (*) a b)"
  proof (induction a arbitrary: b)
    case Nil
    show ?case by simp
  next
    case (Cons x a)
    then show ?case by (cases b) simp_all
  qed
  then show ?thesis unfolding fdot_def rdot_def by (simp only: fsum_Fin)
qed

lemma column_map_Fin:
  assumes "\<And>row. row \<in> set X \<Longrightarrow> j < length row"
  shows "column (map (map Fin) X) j = map Fin (column X j)"
  using assms by (simp add: column_def)

lemma columns_map_Fin:
  assumes "\<And>row. row \<in> set X \<Longrightarrow> length row = k"
  shows "columns k (map (map Fin) X) = map (map Fin) (columns k X)"
  using assms by (simp add: columns_def column_map_Fin)

lemma sum_list_nth_sum: "sum_list xs = (\<Sum>k<length xs. xs ! k)"
  by (simp add: sum_list_sum_nth atLeast0LessThan)

lemma rdot_sum:
  assumes "length a = length b"
  shows "rdot a b = (\<Sum>k<length a. a ! k * b ! k)"
proof -
  have "map2 (*) a b = map (\<lambda>k. a ! k * b ! k) [0..<length a]"
    using assms by (intro nth_equalityI) simp_all
  then show ?thesis
    by (simp add: rdot_def interv_sum_list_conv_sum_set_nat atLeast0LessThan)
qed

lemma rdot_ones_right: "length v = k \<Longrightarrow> rdot v (replicate k 1) = sum_list v"
  by (simp add: rdot_sum sum_list_nth_sum)

lemma rdot_ones_left: "length v = k \<Longrightarrow> rdot (replicate k 1) v = sum_list v"
  by (simp add: rdot_sum sum_list_nth_sum)

lemma column_sums_total:
  fixes B :: "real list list"
  assumes "\<And>row. row \<in> set B \<Longrightarrow> length row = k"
  shows "sum_list (map (\<lambda>j. sum_list (column B j)) [0..<k]) = sum_list (map sum_list B)"
  using assms
proof (induction B)
  case Nil
  show ?case by (simp add: column_def)
next
  case (Cons r B)
  have "sum_list (map (\<lambda>j. sum_list (column (r # B) j)) [0..<k])
      = sum_list (map (\<lambda>j. r ! j + sum_list (column B j)) [0..<k])"
    by (simp add: column_def)
  also have "\<dots> = sum_list (map ((!) r) [0..<k]) + sum_list (map (\<lambda>j. sum_list (column B j)) [0..<k])"
    by (rule sum_list_addf)
  also have "map ((!) r) [0..<k] = r"
    using Cons.prems [of r] map_nth [of r] by auto
  finally show ?case using Cons by simp
qed

text \<open>The covariance that is inverted, and the sign of the sum of the inverse's entries.\<close>

lemma map2_sum:
  fixes f :: "'a \<Rightarrow> 'b \<Rightarrow> real"
  assumes "length a = length b"
  shows "sum_list (map2 f a b) = (\<Sum>k<length a. f (a ! k) (b ! k))"
proof -
  have "map2 f a b = map (\<lambda>k. f (a ! k) (b ! k)) [0..<length a]"
    using assms by (intro nth_equalityI) simp_all
  then show ?thesis
    by (simp add: interv_sum_list_conv_sum_set_nat atLeast0LessThan)
qed

lemma cov_pair_Fin: "1 < length a \<Longrightarrow> cov_pair (map Fin a) (map Fin b) = Fin (covariance a b)"
  by (simp add: cov_pair_def list_all_iff comp_def)

lemma length_column [simp]: "length (column X j) = length X"
  by (simp add: column_def)

lemma cov_df_finite:
  assumes rect: "\<And>row. row \<in> set X \<Longrightarrow> length row = ncols df"
    and rows: "df_rows df = map (map Fin) X"
    and n: "1 < length X"
  shows "cov_df df = map (map Fin) (covariance_matrix (ncols df) X)"
proof -
  define cs where "cs = columns (ncols df) X"
  have len: "1 < length a" if "a \<in> set cs" for a
    using that n by (auto simp: cs_def columns_def)
  have "columns (ncols df) (df_rows df) = map (map Fin) cs"
    unfolding rows cs_def using rect by (rule columns_map_Fin)
  moreover have "map (\<lambda>a. map (cov_pair a) (map (map Fin) cs)) (map (map Fin) cs)
      = map (map Fin) (map (\<lambda>a. map (covariance a) cs) cs)"
    using len by (simp add: cov_pair_Fin comp_def)
  ultimately show ?thesis
    by (simp add: cov_df_def covariance_matrix_def Let_def cs_def)
qed

lemma inverse_total_pos:
  assumes rect: "\<And>row. row \<in> set X \<Longrightarrow> length row = k"
    and n: "1 < length X" and k: "0 < k"
    and inv: "is_inverse (covariance_matrix k X) B"
  shows "0 < sum_list (map sum_list B)"
proof -
  define n' where "n' = length X"
  define S where "S = covariance_matrix k X"
  define d where "d i t = column X i ! t - mean (column X i)" for i t
  have lenS: "length S = k"
    by (simp add: S_def covariance_matrix_def columns_def)
  have lenB: "length B = k" and rowB: "\<And>row. row \<in> set B \<Longrightarrow> length row = k"
    and prod: "rmat_mul S B = identity_matrix k"
    using inv by (simp_all add: is_inverse_def S_def [symmetric] lenS list_all_iff)
  have widB: "width B = k"
    using lenB rowB k by (cases B) (simp_all add: width_def)
  have Srow: "S ! i = map (covariance (column X i)) (columns k X)" if "i < k" for i
    using that by (simp add: S_def covariance_matrix_def columns_def)
  have Sent: "S ! i ! l = (\<Sum>t<n'. d i t * d l t) / (real n' - 1)" if "i < k" "l < k" for i l
  proof -
    have "S ! i ! l = covariance (column X i) (column X l)"
      using that by (simp add: Srow columns_def)
    also have "\<dots> = (\<Sum>t<n'. d i t * d l t) / (real n' - 1)"
      by (simp add: covariance_def map2_sum d_def n'_def)
    finally show ?thesis .
  qed
  have ent: "(\<Sum>l<k. ((\<Sum>t<n'. d i t * d l t) / (real n' - 1)) * (B ! l ! j))
      = (if i = j then 1 else 0)" if "i < k" "j < k" for i j
  proof -
    have "rmat_mul S B ! i ! j = rdot (S ! i) (column B j)"
      using that by (simp add: rmat_mul_def lenS widB)
    also have "\<dots> = (\<Sum>l<k. S ! i ! l * column B j ! l)"
      using that by (simp add: rdot_sum Srow columns_def lenB)
    also have "\<dots> = (\<Sum>l<k. ((\<Sum>t<n'. d i t * d l t) / (real n' - 1)) * (B ! l ! j))"
      using that by (intro sum.cong refl) (simp add: Sent column_def lenB)
    finally have "(\<Sum>l<k. ((\<Sum>t<n'. d i t * d l t) / (real n' - 1)) * (B ! l ! j))
        = identity_matrix k ! i ! j"
      by (simp add: prod)
    then show ?thesis using that by (simp add: identity_matrix_def)
  qed
  have "0 < (\<Sum>l<k. \<Sum>j<k. B ! l ! j)"
    using n k ent unfolding n'_def by (rule cov_inverse_row_sums_pos)
  also have "(\<Sum>l<k. \<Sum>j<k. B ! l ! j) = (\<Sum>l<k. sum_list (B ! l))"
    using rowB lenB by (intro sum.cong refl) (simp add: sum_list_nth_sum)
  also have "\<dots> = sum_list (map sum_list B)"
    by (simp add: sum_list_nth_sum lenB)
  finally show ?thesis .
qed

text \<open>The weights computed on floats are the closed form computed on reals.\<close>

lemma matvec_Fin: "matvec (map (map Fin) M) (map Fin v) = map Fin (rmatvec M v)"
  by (simp add: matvec_def rmatvec_def fdot_Fin)

lemma vecmat_Fin:
  assumes "M \<noteq> []" and "\<And>row. row \<in> set M \<Longrightarrow> length row = k"
  shows "vecmat (map Fin v) (map (map Fin) M) = map Fin (map (\<lambda>j. rdot v (column M j)) [0..<k])"
proof -
  obtain r rs where M: "M = r # rs" using assms(1) by (cases M) auto
  then have "length r = k" using assms(2) by simp
  then have "width (map (map Fin) M) = k"
    by (simp add: M width_def)
  moreover have "fdot (map Fin v) (column (map (map Fin) M) j) = Fin (rdot v (column M j))"
    if "j < k" for j
    using that assms(2) by (simp add: column_map_Fin fdot_Fin)
  ultimately show ?thesis by (simp add: vecmat_def)
qed

lemma rmatvec_ones:
  assumes "\<And>row. row \<in> set M \<Longrightarrow> length row = k"
  shows "rmatvec M (replicate k 1) = map sum_list M"
  using assms by (simp add: rmatvec_def rdot_ones_right)

lemma wf_df_finite:
  assumes "wf_df df" and "df_rows df = map (map Fin) X"
  shows "length X = nrows df" and "\<And>row. row \<in> set X \<Longrightarrow> length row = ncols df"
    and "\<not> has_nan df"
proof -
  show "length X = nrows df" using assms by (simp add: wf_df_def)
  show "length row = ncols df" if "row \<in> set X" for row
    using assms that by (auto simp: wf_df_def list_all_iff)
  show "\<not> has_nan df"
    using assms(2) by (auto simp: has_nan_def list_ex_iff)
qed

lemma sum_list_div: "sum_list (map (\<lambda>x. x / s) xs) = sum_list xs / (s::real)"
  by (induction xs) (simp_all add: add_divide_distrib)

lemma closed_form_of_weights:
  assumes wf: "wf_df df" and rows: "df_rows df = map (map Fin) X"
    and dims: "2 \<le> ncols df" "ncols df < nrows df"
    and inv: "linalg_inv (cov_df df) = Inr (map (map Fin) B)"
    and isinv: "is_inverse (covariance_matrix (ncols df) X) B"
  shows "calculate_mvp_weights linalg_inv df =
      Inr \<lparr>s_index = df_columns df, s_values = map Fin (closed_form_weights B)\<rparr>"
    and "sum_list (closed_form_weights B) = 1"
    and "length (closed_form_weights B) = ncols df"
proof -
  define k where "k = ncols df"
  define s where "s = sum_list (map sum_list B)"
  note X = wf_df_finite [OF wf rows]
  have n: "1 < length X" using dims by (simp add: X(1))
  have kpos: "0 < k" using dims by (simp add: k_def)
  have cov: "cov_df df = map (map Fin) (covariance_matrix k X)"
    unfolding k_def using X(2) rows n by (rule cov_df_finite)
  have lencov: "length (cov_df df) = k"
    by (simp add: cov covariance_matrix_def columns_def)
  have lenB: "length B = k" and rowB: "\<And>row. row \<in> set B \<Longrightarrow> length row = k"
    using isinv by (simp_all add: is_inverse_def k_def [symmetric] covariance_matrix_def
        columns_def list_all_iff)
  have Bne: "B \<noteq> []" using lenB kpos by auto
  have spos: "0 < s"
    unfolding s_def using X(2) n kpos isinv unfolding k_def [symmetric]
    by (rule inverse_total_pos)
  have ones: "replicate k (Fin 1) = map Fin (replicate k 1)" by simp
  have u: "matvec (map (map Fin) B) (replicate k (Fin 1)) = map Fin (map sum_list B)"
    unfolding ones matvec_Fin using rowB by (simp add: rmatvec_ones)
  have "fdot (vecmat (replicate k (Fin 1)) (map (map Fin) B)) (replicate k (Fin 1))
      = Fin (rdot (map (\<lambda>j. rdot (replicate k 1) (column B j)) [0..<k]) (replicate k 1))"
    using vecmat_Fin [OF Bne rowB, of "replicate k 1"] by (simp only: ones fdot_Fin)
  also have "rdot (map (\<lambda>j. rdot (replicate k 1) (column B j)) [0..<k]) (replicate k 1)
      = sum_list (map (\<lambda>j. rdot (replicate k 1) (column B j)) [0..<k])"
    by (simp add: rdot_ones_right)
  also have "\<dots> = sum_list (map (\<lambda>j. sum_list (column B j)) [0..<k])"
    by (simp add: rdot_ones_left lenB)
  also have "\<dots> = s"
    unfolding s_def using rowB by (rule column_sums_total)
  finally have total: "fdot (vecmat (replicate k (Fin 1)) (map (map Fin) B)) (replicate k (Fin 1)) = Fin s" .
  have cf: "closed_form_weights B = map (\<lambda>x. x / s) (map sum_list B)"
    using rowB by (simp add: closed_form_weights_def Let_def lenB rmatvec_ones rdot_ones_left s_def)
  have w: "map (\<lambda>w. fdiv w (Fin s)) (map Fin (map sum_list B)) = map Fin (closed_form_weights B)"
    using spos by (simp add: cf comp_def)
  have pre: "\<not> df_empty df" "\<not> has_nan df" "\<not> ncols df < 2" "\<not> nrows df \<le> ncols df"
    using dims X(3) by (simp_all add: df_empty_def)
  show "calculate_mvp_weights linalg_inv df =
      Inr \<lparr>s_index = df_columns df, s_values = map Fin (closed_form_weights B)\<rparr>"
    unfolding calculate_mvp_weights_def Let_def
    by (simp only: pre if_False inv sum.case lencov u total w)
  have "sum_list (closed_form_weights B) = sum_list (map sum_list B) / s"
    unfolding cf by (rule sum_list_div)
  also have "\<dots> = 1"
    using spos by (simp add: s_def)
  finally show "sum_list (closed_form_weights B) = 1" .
  show "length (closed_form_weights B) = ncols df"
    by (simp add: cf lenB k_def)
qed

text \<open>Three observations of two assets, used in the instances below.\<close>

lemma example_covariance:
  "covariance_matrix 2 [[1, 0], [0, 2], [0, 0]] = [[1 / 3, - 1 / 3], [- 1 / 3, 4 / 3]]"
  by (simp add: covariance_matrix_def columns_def column_def covariance_def mean_def
      upt_rec numeral_2_eq_2)

lemma example_inverse:
  "is_inverse (covariance_matrix 2 [[1, 0], [0, 2], [0, 0]]) [[4, 1], [1, 1]]"
  unfolding example_covariance
  by (simp add: is_inverse_def rmat_mul_def identity_matrix_def rdot_def
      column_def width_def upt_rec numeral_2_eq_2)

subsection \<open>Minimum variance weights and portfolio\<close>





text \<open>
  The covariance matrix of three columns, the third of which is the first minus three
  times the second, has no inverse: the same combination of its rows is zero.
\<close>

lemma collinear_covariance_singular:
  "\<not> is_inverse [[5 / 2, 1 / 2, 1], [1 / 2, 19 / 2, - 28], [1, - 28, 85]] B"
proof
  let ?S = "[[5 / 2, 1 / 2, 1], [1 / 2, 19 / 2, - 28], [1, - 28, 85 :: real]]"
  assume "is_inverse ?S B"
  then have len: "length B = 3" and rows: "\<forall>row \<in> set B. length row = 3"
    and prod: "rmat_mul ?S B = identity_matrix 3"
    by (simp_all add: is_inverse_def list_all_iff numeral_3_eq_3)
  from len obtain r0 r1 r2 where B: "B = [r0, r1, r2]"
    by (auto simp: length_Suc_conv numeral_3_eq_3)
  with rows have w: "width [r0, r1, r2] = 3" by (simp add: width_def)
  have "rmat_mul ?S B ! 0 ! 0 = identity_matrix 3 ! 0 ! 0"
    and "rmat_mul ?S B ! 1 ! 0 = identity_matrix 3 ! 1 ! 0"
    and "rmat_mul ?S B ! 2 ! 0 = identity_matrix 3 ! 2 ! 0"
    by (simp_all only: prod)
  then have "5 / 2 * r0 ! 0 + 1 / 2 * r1 ! 0 + r2 ! 0 = 1"
    and "1 / 2 * r0 ! 0 + 19 / 2 * r1 ! 0 - 28 * r2 ! 0 = 0"
    and "r0 ! 0 - 28 * r1 ! 0 + 85 * r2 ! 0 = 0"
    by (simp_all add: rmat_mul_def w B rdot_def column_def identity_matrix_def upt_rec
        numeral_3_eq_3)
  then show False by linarith
qed

text \<open>
  C4 fails at five observations of three assets whose third column is the first minus
  three times the second. The four preconditions hold; the sample covariance matrix is
  \<open>[[2.5, 0.5, 1], [0.5, 9.5, -28], [1, -28, 85]]\<close>, every entry a double, and it has no
  inverse. The function makes no test of singularity of its own: whatever matrix the
  inversion returns, it returns weights keyed by the columns, and it fails, with the
  ValueError of its validation checks, only when the inversion itself raises
  LinAlgError.
\<close>

theorem collinear_frame_returns_weights:
  "\<not> df_empty \<lparr>df_index = DatetimeIndex [1, 2, 3, 4, 5],
           df_columns = ObjectIndex [''AAPL'', ''GOOG'', ''TSLA''],
           df_rows = [[Fin 1, Fin 0, Fin 1], [Fin 2, Fin 3, Fin (- 7)], [Fin 3, Fin 7, Fin (- 18)],
                      [Fin 4, Fin 5, Fin (- 11)], [Fin 5, Fin 0, Fin 5]]\<rparr>
   \<and> \<not> has_nan \<lparr>df_index = DatetimeIndex [1, 2, 3, 4, 5],
           df_columns = ObjectIndex [''AAPL'', ''GOOG'', ''TSLA''],
           df_rows = [[Fin 1, Fin 0, Fin 1], [Fin 2, Fin 3, Fin (- 7)], [Fin 3, Fin 7, Fin (- 18)],
                      [Fin 4, Fin 5, Fin (- 11)], [Fin 5, Fin 0, Fin 5]]\<rparr>
   \<and> cov_df \<lparr>df_index = DatetimeIndex [1, 2, 3, 4, 5],
           df_columns = ObjectIndex [''AAPL'', ''GOOG'', ''TSLA''],
           df_rows = [[Fin 1, Fin 0, Fin 1], [Fin 2, Fin 3, Fin (- 7)], [Fin 3, Fin 7, Fin (- 18)],
                      [Fin 4, Fin 5, Fin (- 11)], [Fin 5, Fin 0, Fin 5]]\<rparr>
     = map (map Fin) [[5 / 2, 1 / 2, 1], [1 / 2, 19 / 2, - 28], [1, - 28, 85]]
   \<and> (\<forall>B. \<not> is_inverse [[5 / 2, 1 / 2, 1], [1 / 2, 19 / 2, - 28], [1, - 28, 85]] B)
   \<and> (\<forall>M. calculate_mvp_weights (\<lambda>C. Inr M)
          \<lparr>df_index = DatetimeIndex [1, 2, 3, 4, 5],
           df_columns = ObjectIndex [''AAPL'', ''GOOG'', ''TSLA''],
           df_rows = [[Fin 1, Fin 0, Fin 1], [Fin 2, Fin 3, Fin (- 7)], [Fin 3, Fin 7, Fin (- 18)],
                      [Fin 4, Fin 5, Fin (- 11)], [Fin 5, Fin 0, Fin 5]]\<rparr>
        = Inr \<lparr>s_index = ObjectIndex [''AAPL'', ''GOOG'', ''TSLA''],
               s_values =
                 map (\<lambda>w. fdiv w (fdot (vecmat [Fin 1, Fin 1, Fin 1] M) [Fin 1, Fin 1, Fin 1]))
                   (matvec M [Fin 1, Fin 1, Fin 1])\<rparr>)
   \<and> calculate_mvp_weights (\<lambda>C. Inl (Error LinAlgError ''Singular matrix'' None))
          \<lparr>df_index = DatetimeIndex [1, 2, 3, 4, 5],
           df_columns = ObjectIndex [''AAPL'', ''GOOG'', ''TSLA''],
           df_rows = [[Fin 1, Fin 0, Fin 1], [Fin 2, Fin 3, Fin (- 7)], [Fin 3, Fin 7, Fin (- 18)],
                      [Fin 4, Fin 5, Fin (- 11)], [Fin 5, Fin 0, Fin 5]]\<rparr>
        = Inl (Error ValueError
            ''Covariance matrix is singular and cannot be inverted. Try removing collinear or redundant assets.''
            (Some (Error LinAlgError ''Singular matrix'' None)))"
proof -
  let ?df = "\<lparr>df_index = DatetimeIndex [1, 2, 3, 4, 5],
           df_columns = ObjectIndex [''AAPL'', ''GOOG'', ''TSLA''],
           df_rows = [[Fin 1, Fin 0, Fin 1], [Fin 2, Fin 3, Fin (- 7)], [Fin 3, Fin 7, Fin (- 18)],
                      [Fin 4, Fin 5, Fin (- 11)], [Fin 5, Fin 0, Fin 5]]\<rparr>"
  have nc: "ncols ?df = 3" and nr: "nrows ?df = 5"
    by (simp_all add: ncols_def nrows_def)
  have cov: "cov_df ?df = map (map Fin) [[5 / 2, 1 / 2, 1], [1 / 2, 19 / 2, - 28], [1, - 28, 85]]"
    by (simp add: cov_df_def nc columns_def column_def cov_pair_def covariance_def mean_def
        upt_rec numeral_3_eq_3)
  have pre: "\<not> df_empty ?df" "\<not> has_nan ?df" "\<not> ncols ?df < 2" "\<not> nrows ?df \<le> ncols ?df"
    by (simp_all add: df_empty_def has_nan_def nc nr)
  have len: "length (cov_df ?df) = 3" by (simp add: cov)
  have ones: "replicate 3 (Fin 1) = [Fin 1, Fin 1, Fin 1]" by (simp add: numeral_3_eq_3)
  have w: "calculate_mvp_weights (\<lambda>C. Inr M) ?df
        = Inr \<lparr>s_index = ObjectIndex [''AAPL'', ''GOOG'', ''TSLA''],
               s_values =
                 map (\<lambda>w. fdiv w (fdot (vecmat [Fin 1, Fin 1, Fin 1] M) [Fin 1, Fin 1, Fin 1]))
                   (matvec M [Fin 1, Fin 1, Fin 1])\<rparr>" for M
    unfolding calculate_mvp_weights_def Let_def
    by (simp only: pre if_False sum.case len ones) simp
  have e: "calculate_mvp_weights (\<lambda>C. Inl (Error LinAlgError ''Singular matrix'' None)) ?df
        = Inl (Error ValueError
            ''Covariance matrix is singular and cannot be inverted. Try removing collinear or redundant assets.''
            (Some (Error LinAlgError ''Singular matrix'' None)))"
    unfolding calculate_mvp_weights_def Let_def
    by (simp only: pre if_False sum.case) simp
  from pre(1,2) cov collinear_covariance_singular w e show ?thesis by blast
qed

text \<open>
  C7: for a frame without NaN and with at least two columns, as many rows as columns give
  the ValueError that the number of observations must exceed the number of assets; one
  row more passes every precondition: the outcome is then that of the inversion, weights
  keyed by the columns when it succeeds and its error otherwise.
\<close>

theorem mvp_dimension_boundary:
  assumes "\<not> has_nan df" and "2 \<le> ncols df"
  shows "(nrows df = ncols df \<longrightarrow>
        calculate_mvp_weights linalg_inv df =
          Inl (Error ValueError
            ''Number of observations must exceed the number of assets to ensure covariance matrix invertibility.''
            None))
     \<and> (nrows df = ncols df + 1 \<longrightarrow>
        (case linalg_inv (cov_df df) of
           Inl e \<Rightarrow>
             calculate_mvp_weights linalg_inv df =
               Inl (if err_kind e = LinAlgError then
                      Error ValueError
                        ''Covariance matrix is singular and cannot be inverted. Try removing collinear or redundant assets.''
                        (Some e)
                    else e)
         | Inr inv_cov \<Rightarrow>
             (\<exists>w. calculate_mvp_weights linalg_inv df = Inr w \<and> s_index w = df_columns df)))"
  using assms
  by (auto simp: calculate_mvp_weights_def df_empty_def Let_def split: sum.splits)

text \<open>C7 at two assets with two and with three observations.\<close>

theorem mvp_dimension_boundary_witness:
  "calculate_mvp_weights (\<lambda>M. Inr [[Fin 4, Fin 1], [Fin 1, Fin 1]])
       \<lparr>df_index = DatetimeIndex [1, 2], df_columns = ObjectIndex [''AAPL'', ''GOOG''],
         df_rows = [[Fin 1, Fin 0], [Fin 0, Fin 2]]\<rparr>
     = Inl (Error ValueError
         ''Number of observations must exceed the number of assets to ensure covariance matrix invertibility.''
         None)
   \<and> (\<exists>w. calculate_mvp_weights (\<lambda>M. Inr [[Fin 4, Fin 1], [Fin 1, Fin 1]])
       \<lparr>df_index = DatetimeIndex [1, 2, 3], df_columns = ObjectIndex [''AAPL'', ''GOOG''],
         df_rows = [[Fin 1, Fin 0], [Fin 0, Fin 2], [Fin 0, Fin 0]]\<rparr> = Inr w
       \<and> s_index w = ObjectIndex [''AAPL'', ''GOOG''])"
  using mvp_dimension_boundary
      [of "\<lparr>df_index = DatetimeIndex [1, 2], df_columns = ObjectIndex [''AAPL'', ''GOOG''],
         df_rows = [[Fin 1, Fin 0], [Fin 0, Fin 2]]\<rparr>"
        "\<lambda>M. Inr [[Fin 4, Fin 1], [Fin 1, Fin 1]]"]
    mvp_dimension_boundary
      [of "\<lparr>df_index = DatetimeIndex [1, 2, 3], df_columns = ObjectIndex [''AAPL'', ''GOOG''],
         df_rows = [[Fin 1, Fin 0], [Fin 0, Fin 2], [Fin 0, Fin 0]]\<rparr>"
        "\<lambda>M. Inr [[Fin 4, Fin 1], [Fin 1, Fin 1]]"]
  by (simp add: has_nan_def ncols_def nrows_def)

lemma df_matmul_index:
  assumes "s_index w = df_columns df"
  shows "\<exists>pr. df_matmul df w = Inr pr \<and> s_index pr = df_index df
     \<and> length (s_values pr) = length (df_rows df)"
  using assms by (simp add: df_matmul_def)

text \<open>
  C3: whatever the product and the inversion do, a series returned by
  \<^verbatim>\<open>calculate_mvp_portfolio\<close> has the index of the input frame; when the product
  returns a series with another index the call fails with the ValueError of the index
  mismatch; and for a valid frame with an invertible covariance matrix the call with the
  pandas product returns a series with the index of the frame and one value per row.
\<close>

theorem mvp_portfolio_index:
  "(calculate_mvp_portfolio matmul linalg_inv df = Inr s \<longrightarrow> s_index s = df_index df)
   \<and> (\<not> df_empty df \<and> \<not> has_nan df \<and> calculate_mvp_weights linalg_inv df = Inr w
        \<and> matmul df w = Inr pr \<and> s_index pr \<noteq> df_index df \<longrightarrow>
      calculate_mvp_portfolio matmul linalg_inv df =
        Inl (Error ValueError
          ''Mismatch in index between input data and calculated portfolio returns.'' None))
   \<and> (wf_df df \<and> df_rows df = map (map Fin) X \<and> 2 \<le> ncols df \<and> ncols df < nrows df
        \<and> linalg_inv (cov_df df) = Inr (map (map Fin) B)
        \<and> is_inverse (covariance_matrix (ncols df) X) B \<longrightarrow>
      (\<exists>s'. calculate_mvp_portfolio df_matmul linalg_inv df = Inr s'
         \<and> s_index s' = df_index df \<and> length (s_values s') = nrows df))"
proof (intro conjI impI)
  assume "calculate_mvp_portfolio matmul linalg_inv df = Inr s"
  then show "s_index s = df_index df"
    by (auto simp: calculate_mvp_portfolio_def split: if_splits sum.splits)
next
  assume "\<not> df_empty df \<and> \<not> has_nan df \<and> calculate_mvp_weights linalg_inv df = Inr w
        \<and> matmul df w = Inr pr \<and> s_index pr \<noteq> df_index df"
  then show "calculate_mvp_portfolio matmul linalg_inv df =
        Inl (Error ValueError
          ''Mismatch in index between input data and calculated portfolio returns.'' None)"
    by (auto simp: calculate_mvp_portfolio_def)
next
  assume a: "wf_df df \<and> df_rows df = map (map Fin) X \<and> 2 \<le> ncols df \<and> ncols df < nrows df
        \<and> linalg_inv (cov_df df) = Inr (map (map Fin) B)
        \<and> is_inverse (covariance_matrix (ncols df) X) B"
  then have w: "calculate_mvp_weights linalg_inv df =
         Inr \<lparr>s_index = df_columns df, s_values = map Fin (closed_form_weights B)\<rparr>"
    by (intro closed_form_of_weights(1) [of df X]) simp_all
  from a have X: "length X = nrows df" "\<not> has_nan df"
    using wf_df_finite [of df X] by simp_all
  from a have ne: "\<not> df_empty df" by (simp add: df_empty_def)
  obtain pr where pr: "df_matmul df \<lparr>s_index = df_columns df, s_values = map Fin (closed_form_weights B)\<rparr> = Inr pr"
    "s_index pr = df_index df" "length (s_values pr) = length (df_rows df)"
    using df_matmul_index [of "\<lparr>s_index = df_columns df, s_values = map Fin (closed_form_weights B)\<rparr>" df]
    by auto
  have "calculate_mvp_portfolio df_matmul linalg_inv df = Inr pr"
    using X(2) ne by (simp add: calculate_mvp_portfolio_def w pr)
  with pr(2,3) a X(1) show "\<exists>s'. calculate_mvp_portfolio df_matmul linalg_inv df = Inr s'
         \<and> s_index s' = df_index df \<and> length (s_values s') = nrows df"
    by auto
qed

text \<open>
  C3 at three observations of two assets, with the pandas product and with a product
  that returns a series with the wrong index.
\<close>

theorem mvp_portfolio_index_witness:
  "(\<exists>s. calculate_mvp_portfolio df_matmul (\<lambda>M. Inr [[Fin 4, Fin 1], [Fin 1, Fin 1]])
       \<lparr>df_index = DatetimeIndex [1, 2, 3], df_columns = ObjectIndex [''AAPL'', ''GOOG''],
         df_rows = [[Fin 1, Fin 0], [Fin 0, Fin 2], [Fin 0, Fin 0]]\<rparr> = Inr s
       \<and> s_index s = DatetimeIndex [1, 2, 3] \<and> length (s_values s) = 3)
   \<and> calculate_mvp_portfolio (\<lambda>df w. Inr \<lparr>s_index = Int64Index [0], s_values = [Fin 0]\<rparr>)
       (\<lambda>M. Inr [[Fin 4, Fin 1], [Fin 1, Fin 1]])
       \<lparr>df_index = DatetimeIndex [1, 2, 3], df_columns = ObjectIndex [''AAPL'', ''GOOG''],
         df_rows = [[Fin 1, Fin 0], [Fin 0, Fin 2], [Fin 0, Fin 0]]\<rparr>
     = Inl (Error ValueError
         ''Mismatch in index between input data and calculated portfolio returns.'' None)"
proof -
  let ?df = "\<lparr>df_index = DatetimeIndex [1, 2, 3], df_columns = ObjectIndex [''AAPL'', ''GOOG''],
         df_rows = [[Fin 1, Fin 0], [Fin 0, Fin 2], [Fin 0, Fin 0]]\<rparr>"
  let ?inv = "\<lambda>M :: fval list list. (Inr [[Fin 4, Fin 1], [Fin 1, Fin 1]] :: error + fval list list)"
  let ?X = "[[1, 0], [0, 2], [0, 0 :: real]]"
  let ?B = "[[4, 1], [1, 1 :: real]]"
  let ?bad = "\<lambda>(df :: dataframe) (w :: series).
      (Inr \<lparr>s_index = Int64Index [0], s_values = [Fin 0]\<rparr> :: error + series)"
  have nc: "ncols ?df = 2" and nr: "nrows ?df = 3"
    by (simp_all add: ncols_def nrows_def)
  have wf: "wf_df ?df" by (simp add: wf_df_def nc nr)
  have inv: "is_inverse (covariance_matrix (ncols ?df) ?X) ?B"
    unfolding nc by (rule example_inverse)
  have w: "calculate_mvp_weights ?inv ?df =
      Inr \<lparr>s_index = df_columns ?df, s_values = map Fin (closed_form_weights ?B)\<rparr>"
    by (rule closed_form_of_weights(1) [of ?df ?X ?inv ?B, OF wf _ _ _ _ inv])
      (simp_all add: nc nr)
  have "\<exists>s'. calculate_mvp_portfolio df_matmul ?inv ?df = Inr s'
      \<and> s_index s' = df_index ?df \<and> length (s_values s') = nrows ?df"
    using mvp_portfolio_index [where matmul = df_matmul and linalg_inv = ?inv and df = ?df
        and X = ?X and B = ?B, THEN conjunct2, THEN conjunct2] wf inv
    by (simp add: nc nr)
  then obtain s where s: "calculate_mvp_portfolio df_matmul ?inv ?df = Inr s"
      "length (s_values s) = nrows ?df"
    by blast
  have "s_index s = df_index ?df"
    using mvp_portfolio_index [where matmul = df_matmul and linalg_inv = ?inv and df = ?df
        and s = s, THEN conjunct1] s(1) by blast
  moreover have "calculate_mvp_portfolio ?bad ?inv ?df
     = Inl (Error ValueError
         ''Mismatch in index between input data and calculated portfolio returns.'' None)"
    using mvp_portfolio_index [where matmul = ?bad and linalg_inv = ?inv and df = ?df
        and w = "\<lparr>s_index = df_columns ?df, s_values = map Fin (closed_form_weights ?B)\<rparr>"
        and pr = "\<lparr>s_index = Int64Index [0], s_values = [Fin 0]\<rparr>",
        THEN conjunct2, THEN conjunct1] w
    by (simp add: df_empty_def has_nan_def nc nr)
  ultimately show ?thesis using s by (auto simp: nr)
qed

subsection \<open>Factor regression\<close>

text \<open>
  C8: for two series that pass the checks before the join (both non-empty, both with a
  datetime index, a common date, no NaN after the concatenation) and a factor table that
  was read, a join of exactly 5 rows goes on to the fit: the outcome is a RuntimeError
  around the exception of the fit when it raises, and otherwise the coefficients without
  the constant (with the summary in the log, or the exception of the summary, when
  logging is on); a join of 4 rows or fewer gives the ValueError of too few data points
  whatever the fit would do.
\<close>

theorem regression_row_threshold:
  assumes "s_values p \<noteq> []" and "s_values m \<noteq> []"
    and "is_datetime (s_index p)" and "is_datetime (s_index m)"
    and "index_intersection (s_index p) (s_index m) \<noteq> []"
    and "\<not> list_ex (\<lambda>(l, a, b). isnull a \<or> isnull b) (concat_returns p m)"
  shows "(length (final_df p m ft) = 5 \<longrightarrow>
        (case OLS_fit sm (portfolio_excess (final_df p m ft))
                (add_constant sm (regressors (final_df p m ft))) of
           Inl e \<Rightarrow>
             factor_analysis_regression sm (Inr ft) p m log_on =
               Inl (Error RuntimeError (''Failed to fit OLS regression model: '' @ err_msg e) (Some e))
         | Inr model \<Rightarrow>
             factor_analysis_regression sm (Inr ft) p m False =
               Inr (filter (\<lambda>(name, v). name \<noteq> ''const'') (params model), [])
             \<and> (case summary model of
                  Inl e \<Rightarrow> factor_analysis_regression sm (Inr ft) p m True = Inl e
                | Inr report \<Rightarrow>
                    factor_analysis_regression sm (Inr ft) p m True =
                      Inr (filter (\<lambda>(name, v). name \<noteq> ''const'') (params model),
                           [CHR 0x0A # report]))))
     \<and> (length (final_df p m ft) \<le> 4 \<longrightarrow>
        (\<forall>sm' log_on'. factor_analysis_regression sm' (Inr ft) p m log_on' =
           Inl (Error ValueError ''Not enough overlapping data points to run regression.'' None)))"
  using assms
  by (auto simp: factor_analysis_regression_def Let_def split: sum.splits)

text \<open>
  C8 at two series on six months, joined with a factor table of months 1 to 5 (five rows:
  the model is fitted) and with a table of months 1 to 4 (four rows: ValueError).
\<close>

theorem regression_row_threshold_witness:
  "factor_analysis_regression
     \<lparr>add_constant = (\<lambda>X. (''const'', replicate 5 (Fin 1)) # X),
      OLS_fit = (\<lambda>y X. Inr \<lparr>params = [(''const'', Fin 0), (''Mkt_rf'', Fin 1),
                                (''SMB'', Fin 0), (''HML'', Fin 0), (''Mom'', Fin 0)],
                              summary = Inr ''OLS Regression Results''\<rparr>)\<rparr>
     (Inr [(1, \<lparr>Mom = Fin 1, Mkt_rf = Fin 2, SMB = Fin 3, HML = Fin 4, Rf = Fin 0\<rparr>),
           (2, \<lparr>Mom = Fin 2, Mkt_rf = Fin 1, SMB = Fin 3, HML = Fin 4, Rf = Fin 0\<rparr>),
           (3, \<lparr>Mom = Fin 3, Mkt_rf = Fin 2, SMB = Fin 1, HML = Fin 4, Rf = Fin 0\<rparr>),
           (4, \<lparr>Mom = Fin 4, Mkt_rf = Fin 2, SMB = Fin 3, HML = Fin 1, Rf = Fin 0\<rparr>),
           (5, \<lparr>Mom = Fin 1, Mkt_rf = Fin 1, SMB = Fin 1, HML = Fin 1, Rf = Fin 0\<rparr>)])
     \<lparr>s_index = DatetimeIndex [1, 2, 3, 4, 5, 6],
      s_values = [Fin 1, Fin 2, Fin 3, Fin 4, Fin 5, Fin 6]\<rparr>
     \<lparr>s_index = DatetimeIndex [1, 2, 3, 4, 5, 6],
      s_values = [Fin 2, Fin 2, Fin 3, Fin 3, Fin 5, Fin 5]\<rparr> False
   = Inr ([(''Mkt_rf'', Fin 1), (''SMB'', Fin 0), (''HML'', Fin 0), (''Mom'', Fin 0)], [])
   \<and> factor_analysis_regression
     \<lparr>add_constant = (\<lambda>X. (''const'', replicate 5 (Fin 1)) # X),
      OLS_fit = (\<lambda>y X. Inr \<lparr>params = [(''const'', Fin 0), (''Mkt_rf'', Fin 1),
                                (''SMB'', Fin 0), (''HML'', Fin 0), (''Mom'', Fin 0)],
                              summary = Inr ''OLS Regression Results''\<rparr>)\<rparr>
     (Inr [(1, \<lparr>Mom = Fin 1, Mkt_rf = Fin 2, SMB = Fin 3, HML = Fin 4, Rf = Fin 0\<rparr>),
           (2, \<lparr>Mom = Fin 2, Mkt_rf = Fin 1, SMB = Fin 3, HML = Fin 4, Rf = Fin 0\<rparr>),
           (3, \<lparr>Mom = Fin 3, Mkt_rf = Fin 2, SMB = Fin 1, HML = Fin 4, Rf = Fin 0\<rparr>),
           (4, \<lparr>Mom = Fin 4, Mkt_rf = Fin 2, SMB = Fin 3, HML = Fin 1, Rf = Fin 0\<rparr>)])
     \<lparr>s_index = DatetimeIndex [1, 2, 3, 4, 5, 6],
      s_values = [Fin 1, Fin 2, Fin 3, Fin 4, Fin 5, Fin 6]\<rparr>
     \<lparr>s_index = DatetimeIndex [1, 2, 3, 4, 5, 6],
      s_values = [Fin 2, Fin 2, Fin 3, Fin 3, Fin 5, Fin 5]\<rparr> True
   = Inl (Error ValueError ''Not enough overlapping data points to run regression.'' None)"
proof -
  let ?sm = "\<lparr>add_constant = (\<lambda>X. (''const'', replicate 5 (Fin 1)) # X),
      OLS_fit = (\<lambda>y X. Inr \<lparr>params = [(''const'', Fin 0), (''Mkt_rf'', Fin 1),
                                (''SMB'', Fin 0), (''HML'', Fin 0), (''Mom'', Fin 0)],
                              summary = Inr ''OLS Regression Results''\<rparr>)\<rparr>"
  let ?ft4 = "[(1, \<lparr>Mom = Fin 1, Mkt_rf = Fin 2, SMB = Fin 3, HML = Fin 4, Rf = Fin 0\<rparr>),
           (2, \<lparr>Mom = Fin 2, Mkt_rf = Fin 1, SMB = Fin 3, HML = Fin 4, Rf = Fin 0\<rparr>),
           (3, \<lparr>Mom = Fin 3, Mkt_rf = Fin 2, SMB = Fin 1, HML = Fin 4, Rf = Fin 0\<rparr>),
           (4, \<lparr>Mom = Fin 4, Mkt_rf = Fin 2, SMB = Fin 3, HML = Fin 1, Rf = Fin 0\<rparr>)]"
  let ?ft5 = "?ft4 @ [(5, \<lparr>Mom = Fin 1, Mkt_rf = Fin 1, SMB = Fin 1, HML = Fin 1, Rf = Fin 0\<rparr>)]"
  let ?p = "\<lparr>s_index = DatetimeIndex [1, 2, 3, 4, 5, 6],
      s_values = [Fin 1, Fin 2, Fin 3, Fin 4, Fin 5, Fin 6]\<rparr>"
  let ?m = "\<lparr>s_index = DatetimeIndex [1, 2, 3, 4, 5, 6],
      s_values = [Fin 2, Fin 2, Fin 3, Fin 3, Fin 5, Fin 5]\<rparr>"
  have pre: "s_values ?p \<noteq> []" "s_values ?m \<noteq> []" "is_datetime (s_index ?p)"
      "is_datetime (s_index ?m)" "index_intersection (s_index ?p) (s_index ?m) \<noteq> []"
      "\<not> list_ex (\<lambda>(l, a, b). isnull a \<or> isnull b) (concat_returns ?p ?m)"
    by (simp_all add: index_intersection_def concat_returns_def lookup_def)
  have l5: "length (final_df ?p ?m ?ft5) = 5"
    by (simp add: final_df_def join_factors_def scale_returns_def concat_returns_def lookup_def)
  have l4: "length (final_df ?p ?m ?ft4) \<le> 4"
    by (simp add: final_df_def join_factors_def scale_returns_def concat_returns_def lookup_def)
  have "factor_analysis_regression ?sm (Inr ?ft5) ?p ?m False
      = Inr ([(''Mkt_rf'', Fin 1), (''SMB'', Fin 0), (''HML'', Fin 0), (''Mom'', Fin 0)], [])"
    using regression_row_threshold [OF pre, of ?ft5 ?sm, THEN conjunct1] l5 by simp
  moreover have "factor_analysis_regression ?sm (Inr ?ft4) ?p ?m True
      = Inl (Error ValueError ''Not enough overlapping data points to run regression.'' None)"
    using regression_row_threshold [OF pre, of ?ft4 ?sm, THEN conjunct2] l4 by blast
  ultimately show ?thesis by simp
qed

end
